theory Spec2Isabelle
  imports Complex_Main "HOL-Library.Multiset"
begin

section \<open>Numbers and strings of the route handler\<close>

text \<open>
  The handler (\<^verbatim>\<open>src/app/api/itinerary/route.ts\<close>) computes with JavaScript numbers.
  A number that the code tests with \<^verbatim>\<open>Number.isFinite\<close> is a \<open>jsnum\<close>: a real, or one
  of the three values that test rejects. Numbers that the code only computes with
  (coordinates, ratings, review counts and durations that the provider returned) are
  reals: rounding of doubles is not part of the model, and decimal constants such as
  \<^verbatim>\<open>4.1\<close> stand for their decimal value.
\<close>

datatype jsnum = Num real | NaN | PosInfinity | NegInfinity

fun isFinite :: "jsnum \<Rightarrow> bool" where
  "isFinite (Num x) = True"
| "isFinite NaN = False"
| "isFinite PosInfinity = False"
| "isFinite NegInfinity = False"

text \<open>The real that a finite number is.\<close>

fun theNum :: "jsnum \<Rightarrow> real" where
  "theNum (Num x) = x"
| "theNum n = 0"

text \<open>
  \<^verbatim>\<open>function clamp(n, min, max) { if (!Number.isFinite(n)) return min;
  return Math.max(min, Math.min(max, n)); }\<close>
  Every call site passes literal bounds, so \<open>min\<close> and \<open>max\<close> are reals.
\<close>

definition clamp :: "jsnum \<Rightarrow> real \<Rightarrow> real \<Rightarrow> real" where
  "clamp n mn mx = (if \<not> isFinite n then mn else max mn (min mx (theNum n)))"

lemma clamp_simps [simp]:
  "clamp (Num x) mn mx = max mn (min mx x)"
  "clamp NaN mn mx = mn"
  "clamp PosInfinity mn mx = mn"
  "clamp NegInfinity mn mx = mn"
  by (simp_all add: clamp_def)

text \<open>
  \<^verbatim>\<open>Number(v ?? d)\<close> for a field of the request body: \<open>None\<close> is a field that is
  \<^verbatim>\<open>null\<close> or \<^verbatim>\<open>undefined\<close>, \<open>Some n\<close> a field whose conversion by \<^verbatim>\<open>Number\<close> is \<open>n\<close>
  (\<open>NaN\<close> for text that is not numeric).
\<close>

definition numberOr :: "jsnum option \<Rightarrow> real \<Rightarrow> jsnum" where
  "numberOr v d = (case v of None \<Rightarrow> Num d | Some n \<Rightarrow> n)"

text \<open>\<^verbatim>\<open>String(v ?? d)\<close> for a field of the request body.\<close>

definition stringOr :: "string option \<Rightarrow> string \<Rightarrow> string" where
  "stringOr v d = (case v of None \<Rightarrow> d | Some s \<Rightarrow> s)"

text \<open>
  \<^verbatim>\<open>String.prototype.trim\<close>. A string here is a list of 8-bit characters, and \<open>isSpace\<close>
  holds of the six ASCII white-space characters only (space, tab, line feed, vertical tab,
  form feed, carriage return). JavaScript strips every Unicode white-space character and
  line terminator (U+00A0, U+FEFF, U+2028, U+2029 and the space separators among them);
  \<open>trim\<close> leaves those in place. The two agree on every string that neither starts nor
  ends with one of those other characters.
\<close>

definition isSpace :: "char \<Rightarrow> bool" where
  "isSpace c = (c \<in> set [CHR '' '', CHR 0x09, CHR 0x0A, CHR 0x0B, CHR 0x0C, CHR 0x0D])"

definition trim :: "string \<Rightarrow> string" where
  "trim s = rev (dropWhile isSpace (rev (dropWhile isSpace s)))"

text \<open>
  \<^verbatim>\<open>toMinsFromDuration\<close>: the argument is the number read from the provider's duration
  text, \<open>None\<close> when that text is not a number; \<^verbatim>\<open>|| 900\<close> replaces both that and zero.
  \<^verbatim>\<open>Math.round\<close> rounds a half upwards.
\<close>

definition toMinsFromDuration :: "real option \<Rightarrow> real" where
  "toMinsFromDuration d =
     (let secs = (case d of None \<Rightarrow> 900 | Some s \<Rightarrow> if s = 0 then 900 else s)
      in max 5 (of_int \<lfloor>secs / 60 + 1 / 2\<rfloor>))"

definition ellipsis :: string where
  "ellipsis = [CHR 0xE2, CHR 0x80, CHR 0xA6]"

definition safeText :: "string option \<Rightarrow> nat \<Rightarrow> string option" where
  "safeText s maxLen =
     (let t = trim (stringOr s [])
      in if t = [] then None
         else if length t > maxLen then Some (take (maxLen - 1) t @ ellipsis) else Some t)"

section \<open>Places\<close>

record LatLng =
  latitude :: real
  longitude :: real

text \<open>
  A place as the provider returns it, from a text search or from a details request (the
  two differ in the field mask only). An absent or empty \<^verbatim>\<open>id\<close> is the empty string, an
  absent \<^verbatim>\<open>types\<close> the empty list; a location, when present, has both coordinates.
  \<open>openNow\<close> is \<^verbatim>\<open>regularOpeningHours.openNow\<close>, \<open>photoName\<close> is \<^verbatim>\<open>photos[0].name\<close> and
  \<open>reviewText\<close> is \<^verbatim>\<open>reviews[0].text.text\<close>.
\<close>

record place =
  placeId :: string
  displayName :: "string option"
  formattedAddress :: "string option"
  location :: "LatLng option"
  types :: "string list"
  rating :: "real option"
  userRatingCount :: "real option"
  priceLevel :: "string option"
  openNow :: "bool option"
  weekdayDescriptions :: "string list option"
  photoName :: "string option"
  reviewText :: "string option"
  googleMapsUri :: "string option"

definition haversineKm :: "LatLng \<Rightarrow> LatLng \<Rightarrow> real" where
  "haversineKm a b =
     (let R = 6371;
          dLat = ((latitude b - latitude a) * pi) / 180;
          dLon = ((longitude b - longitude a) * pi) / 180;
          lat1 = (latitude a * pi) / 180;
          lat2 = (latitude b * pi) / 180;
          sin1 = sin (dLat / 2);
          sin2 = sin (dLon / 2);
          h = sin1 * sin1 + cos lat1 * cos lat2 * sin2 * sin2
      in 2 * R * arcsin (min 1 (sqrt h)))"

datatype category = Food | Park | Attraction

definition pickCategory :: "string list \<Rightarrow> category" where
  "pickCategory t =
     (let has = (\<lambda>k. k \<in> set t)
      in if has ''restaurant'' \<or> has ''cafe'' \<or> has ''bakery'' \<or> has ''bar''
            \<or> has ''meal_takeaway'' \<or> has ''meal_delivery''
         then Food
         else if has ''park'' \<or> has ''natural_feature'' \<or> has ''campground''
            \<or> has ''rv_park'' \<or> has ''hiking_area''
         then Park
         else Attraction)"

definition bad :: "string list" where
  "bad = [''accounting'', ''atm'', ''bank'', ''car_dealer'', ''car_rental'', ''car_repair'',
     ''car_wash'', ''courthouse'', ''dentist'', ''doctor'', ''electrician'', ''finance'',
     ''gas_station'', ''insurance_agency'', ''lawyer'', ''local_government_office'',
     ''moving_company'', ''painter'', ''pharmacy'', ''plumber'', ''police'', ''post_office'',
     ''real_estate_agency'', ''school'', ''storage'', ''transit_station'',
     ''vehicle_inspection'', ''hospital'']"

definition isNoisyType :: "string list \<Rightarrow> bool" where
  "isNoisyType t =
     (let nonBad = filter (\<lambda>x. x \<notin> set bad) t
      in nonBad = [] \<and> t \<noteq> [])"

definition scenicBoostTypes :: "string list" where
  "scenicBoostTypes = [''tourist_attraction'', ''park'', ''natural_feature'', ''viewpoint'',
     ''scenic_lookout'', ''hiking_area'', ''campground'']"

definition scoreCandidate :: "place \<Rightarrow> bool \<Rightarrow> real" where
  "scoreCandidate p riderMode =
     (let rating = (case rating p of Some r \<Rightarrow> r | None \<Rightarrow> 0);
          count = (case userRatingCount p of Some c \<Rightarrow> c | None \<Rightarrow> 0);
          score = rating * 12 + log 10 (max 1 count) * 8;
          cat = pickCategory (types p);
          boost = (if cat = Attraction then 1.12 else if cat = Park then 1.08 else 1.0);
          t = types p;
          isScenic = (\<exists>x \<in> set t. x \<in> set scenicBoostTypes);
          hasFood = (''cafe'' \<in> set t \<or> ''restaurant'' \<in> set t \<or> ''bakery'' \<in> set t)
      in if riderMode \<and> isScenic then score * boost * 1.18
         else if riderMode \<and> hasFood then score * boost * 1.08
         else score * boost)"

definition vibeToQuery :: "string \<Rightarrow> string \<Rightarrow> string" where
  "vibeToQuery vibe destination =
     (if vibe = ''adventure'' then ''top viewpoints parks trails in '' @ destination
      else if vibe = ''foodie'' then ''best cafes restaurants bakeries in '' @ destination
      else if vibe = ''relaxed'' then ''waterfront parks cafes in '' @ destination
      else ''top tourist attractions museums in '' @ destination)"

definition desiredCategoriesMulti :: "string list \<Rightarrow> nat \<Rightarrow> category list" where
  "desiredCategoriesMulti vibes stopCount =
     (let v = set vibes;
          wants = [Attraction]
            @ (if ''foodie'' \<in> v then [Food] else [])
            @ (if ''adventure'' \<in> v \<or> ''relaxed'' \<in> v then [Park] else [])
            @ (if ''culture'' \<in> v then [Attraction] else []);
          cycle = [Food, Park, Attraction];
          wants' = fold (\<lambda>c ws. if c \<notin> set ws then ws @ [c] else ws) cycle wants
      in take stopCount wants')"

section \<open>Route sequencing\<close>

text \<open>
  \<^verbatim>\<open>Array.prototype.sort\<close> is stable, and so is \<open>sort_key\<close>; the comparator
  \<^verbatim>\<open>scoreCandidate(b) - scoreCandidate(a)\<close> sorts by descending score.
\<close>

definition sortByScore :: "bool \<Rightarrow> place list \<Rightarrow> place list" where
  "sortByScore riderMode ps = sort_key (\<lambda>p. - scoreCandidate p riderMode) ps"

text \<open>
  The inner \<^verbatim>\<open>for\<close> loop of \<^verbatim>\<open>orderByNearestNeighbor\<close>: \<open>i\<close> is the index of the head of
  the list still to scan, \<open>bestD = None\<close> is \<^verbatim>\<open>Number.POSITIVE_INFINITY\<close>.
\<close>

fun nearestIdx :: "LatLng \<Rightarrow> place list \<Rightarrow> nat \<Rightarrow> nat \<Rightarrow> real option \<Rightarrow> nat" where
  "nearestIdx lastLoc [] i bestIdx bestD = bestIdx"
| "nearestIdx lastLoc (p # ps) i bestIdx bestD =
     (case location p of
        None \<Rightarrow> nearestIdx lastLoc ps (Suc i) bestIdx bestD
      | Some loc \<Rightarrow>
          (let d = haversineKm lastLoc loc
           in if (case bestD of None \<Rightarrow> True | Some b \<Rightarrow> d < b)
              then nearestIdx lastLoc ps (Suc i) i (Some d)
              else nearestIdx lastLoc ps (Suc i) bestIdx bestD))"

text \<open>\<^verbatim>\<open>remaining.splice(i, 1)\<close>: what is left of the list.\<close>

definition spliceOut :: "nat \<Rightarrow> 'a list \<Rightarrow> 'a list" where
  "spliceOut i xs = take i xs @ drop (Suc i) xs"

lemma nearestIdx_bound:
  "bestIdx < i + length ps \<Longrightarrow> nearestIdx lastLoc ps i bestIdx bestD < i + length ps"
proof (induction ps arbitrary: i bestIdx bestD)
  case Nil
  then show ?case by simp
next
  case (Cons p ps)
  have keep: "nearestIdx lastLoc ps (Suc i) bestIdx bD < Suc i + length ps" for bD
    using Cons.prems by (intro Cons.IH) simp
  have move: "nearestIdx lastLoc ps (Suc i) i bD < Suc i + length ps" for bD
    by (intro Cons.IH) simp
  show ?case
    using keep move by (simp add: Let_def split: option.splits)
qed

lemma nearestIdx_less:
  "remaining \<noteq> [] \<Longrightarrow> nearestIdx lastLoc remaining 0 0 None < length remaining"
  using nearestIdx_bound [of 0 0 remaining lastLoc None] by simp

text \<open>The \<^verbatim>\<open>while (remaining.length > 0)\<close> loop; \<open>ordered\<close> is never empty there.\<close>

function nnLoop :: "place list \<Rightarrow> place list \<Rightarrow> place list" where
  "nnLoop ordered remaining =
     (if remaining = [] then ordered
      else
        (case location (last ordered) of
           None \<Rightarrow> nnLoop (ordered @ [hd remaining]) (tl remaining)
         | Some lastLoc \<Rightarrow>
             (let bestIdx = nearestIdx lastLoc remaining 0 0 None
              in nnLoop (ordered @ [remaining ! bestIdx]) (spliceOut bestIdx remaining))))"
  by pat_completeness auto
termination
proof (relation "measure (\<lambda>(ordered, remaining). length remaining)")
  show "wf (measure (\<lambda>(ordered, remaining). length remaining))"
    by simp
next
  fix ordered remaining :: "place list"
  assume "remaining \<noteq> []"
  then show "((ordered @ [hd remaining], tl remaining), (ordered, remaining))
      \<in> measure (\<lambda>(ordered, remaining). length remaining)"
    by (cases remaining) simp_all
next
  fix ordered remaining :: "place list" and lastLoc bestIdx
  assume ne: "remaining \<noteq> []" and b: "bestIdx = nearestIdx lastLoc remaining 0 0 None"
  from nearestIdx_less [OF ne] b have "bestIdx < length remaining"
    by simp
  then show "((ordered @ [remaining ! bestIdx], spliceOut bestIdx remaining), (ordered, remaining))
      \<in> measure (\<lambda>(ordered, remaining). length remaining)"
    by (simp add: spliceOut_def)
qed

declare nnLoop.simps [simp del]

definition orderByNearestNeighbor :: "place list \<Rightarrow> bool \<Rightarrow> place list" where
  "orderByNearestNeighbor list riderMode =
     (if length list \<le> 2 then list
      else
        (let remaining = sortByScore riderMode list
         in nnLoop [hd remaining] (tl remaining)))"

section \<open>Timing\<close>

definition pickStopCount :: "real \<Rightarrow> nat" where
  "pickStopCount totalMinutes = (if totalMinutes \<le> 140 then 2 else 3)"

text \<open>
  \<^verbatim>\<open>splitStopDurations\<close>. \<^verbatim>\<open>Math.floor(remaining * 0.42)\<close> floors the exact product here,
  where the code floors the double nearest to the product of two doubles. The two differ
  when the exact product is an integer and the double falls just below it: for a
  remainder of 180 and three stops the code gives 75, 62, 43 (180 * 0.35 is just below 63
  in doubles) and this definition 75, 63, 42; remainders of 340 and 360 are other such
  cases. The last duration is what is left of the remainder in both, so the sum of the
  durations is the same, and a single duration differs by at most one minute.
\<close>

definition splitStopDurations :: "real \<Rightarrow> real \<Rightarrow> nat \<Rightarrow> real list" where
  "splitStopDurations totalMinutes travelTotal stopCount =
     (let remaining = max 60 (totalMinutes - travelTotal)
      in if stopCount = 2
         then (let a = of_int \<lfloor>remaining * 0.55\<rfloor> in [a, remaining - a])
         else (let a = of_int \<lfloor>remaining * 0.42\<rfloor>;
                   b = of_int \<lfloor>remaining * 0.35\<rfloor>
               in [a, b, remaining - a - b]))"

section \<open>The provider and the data of a plan\<close>

text \<open>
  The handler reaches the mapping provider through four wrappers around \<^verbatim>\<open>fetch\<close>. Each is
  a field of the record \<open>provider\<close>: it reads the state \<open>'w\<close> of the outside world and
  returns the state after the call, so the provider may answer the same request differently
  at different times. \<open>Inl msg\<close> is a call that throws. The API key that every wrapper
  passes on is left out. \<open>computeRoutes\<close> returns the seconds of \<^verbatim>\<open>routes[0].duration\<close>,
  \<open>None\<close> when the provider gave no duration or one that is not a number.
\<close>

datatype travelMode = DRIVE | WALK

text \<open>
  A search text: plain, or a text that ends in the coordinates
  \<^verbatim>\<open>${centerLat},${centerLng}\<close> of the swap centre.
\<close>

datatype textQuery = Query string | QueryNear string real real

record 'w provider =
  searchPlacesText :: "'w \<Rightarrow> textQuery \<Rightarrow> nat \<Rightarrow> (string + place list) \<times> 'w"
  getPlaceDetails :: "'w \<Rightarrow> string \<Rightarrow> (string + place) \<times> 'w"
  getPhotoUri :: "'w \<Rightarrow> string \<Rightarrow> nat \<Rightarrow> (string + string option) \<times> 'w"
  computeRoutes :: "'w \<Rightarrow> jsnum \<times> jsnum \<Rightarrow> jsnum \<times> jsnum \<Rightarrow> travelMode
    \<Rightarrow> (string + real option) \<times> 'w"

definition computeRouteMinutes ::
  "('w, 'z) provider_scheme \<Rightarrow> 'w \<Rightarrow> jsnum \<times> jsnum \<Rightarrow> jsnum \<times> jsnum \<Rightarrow> travelMode
    \<Rightarrow> (string + real) \<times> 'w" where
  "computeRouteMinutes P w origin dest travelMode =
     (case computeRoutes P w origin dest travelMode of
        (Inl e, w') \<Rightarrow> (Inl e, w')
      | (Inr dur, w') \<Rightarrow> (Inr (toMinsFromDuration dur), w'))"

text \<open>\<^verbatim>\<open>ParkingOption\<close>; an absent \<^verbatim>\<open>placeId\<close> is the empty string.\<close>

record ParkingOption =
  k_placeId :: string
  k_name :: string
  k_address :: "string option"
  k_lat :: "real option"
  k_lng :: "real option"
  k_mapsUri :: "string option"

text \<open>
  \<^verbatim>\<open>StopDetails\<close>. \<open>s_lat\<close> and \<open>s_lng\<close> are \<^verbatim>\<open>Number(details?.location?.latitude)\<close> and
  its companion: \<open>NaN\<close> when the details carry no location.
\<close>

record StopDetails =
  s_placeId :: string
  s_title :: string
  s_address :: "string option"
  s_lat :: jsnum
  s_lng :: jsnum
  s_mapsUri :: "string option"
  s_rating :: "real option"
  s_userRatingCount :: "real option"
  s_priceLevel :: "string option"
  s_openNow :: "bool option"
  s_weekdayText :: "string list option"
  s_photoUrl :: "string option"
  s_reviewSnippet :: "string option"
  s_parking :: "ParkingOption option"

text \<open>
  \<^verbatim>\<open>PlanItem\<close>: a stop with its \<^verbatim>\<open>durationMin\<close>, or a travel leg with its title,
  \<^verbatim>\<open>durationMin\<close> and mode.
\<close>

datatype PlanItem = Stop real StopDetails | Travel string real travelMode

text \<open>The body of a plan response, and a response: an error with its status, or a plan.\<close>

record plan =
  r_destination :: string
  r_totalMinutes :: real
  r_vibe :: string
  r_vibes :: "string list"
  r_parkOnce :: bool
  r_riderMode :: bool
  r_bufferMinutes :: real
  r_source :: string
  r_items :: "PlanItem list"

datatype response = Error nat string | Plan plan

text \<open>
  An early \<^verbatim>\<open>return NextResponse.json({ error: msg }, { status: n })\<close>, or a throw that the
  handler's \<^verbatim>\<open>catch\<close> turns into status 500: the status and the message.
\<close>

type_synonym failure = "nat \<times> string"

definition errorResponse :: "failure \<Rightarrow> response" where
  "errorResponse f = Error (fst f) (snd f)"

text \<open>
  The request body as the handler reads it. A text field is \<open>None\<close> when it is \<^verbatim>\<open>null\<close> or
  \<^verbatim>\<open>undefined\<close> and otherwise its conversion by \<^verbatim>\<open>String\<close>; a number field behind
  \<^verbatim>\<open>??\<close> likewise with \<^verbatim>\<open>Number\<close>; \<open>b_swapLat\<close>, \<open>b_swapLng\<close>, \<open>raw_lat\<close> and \<open>raw_lng\<close> are
  the results of \<^verbatim>\<open>Number(...)\<close>; the two flags are the results of \<^verbatim>\<open>Boolean(...)\<close>; a list
  field is \<open>None\<close> when it is not an array. \<open>b_stops\<close> is \<^verbatim>\<open>rawStops\<close>.
\<close>

record rawStop =
  raw_placeId :: "string option"
  raw_title :: "string option"
  raw_durationMin :: "jsnum option"
  raw_lat :: jsnum
  raw_lng :: jsnum

record body =
  b_action :: "string option"
  b_destination :: "string option"
  b_totalMinutes :: "jsnum option"
  b_vibe :: "string option"
  b_vibes :: "string list option"
  b_parkOnce :: bool
  b_riderMode :: bool
  b_bufferMinutes :: "jsnum option"
  b_excludePlaceIds :: "string list option"
  b_swapIndex :: "jsnum option"
  b_swapPlaceId :: "string option"
  b_swapLat :: jsnum
  b_swapLng :: jsnum
  b_stops :: "rawStop list"

text \<open>\<^verbatim>\<open>process.env\<close>.\<close>

record env =
  GOOGLE_MAPS_API_KEY :: "string option"

section \<open>Enrichment, parking and travel legs\<close>

definition findParkingNear ::
  "('w, 'z) provider_scheme \<Rightarrow> 'w \<Rightarrow> string \<Rightarrow> string \<Rightarrow> (string + ParkingOption option) \<times> 'w" where
  "findParkingNear P w placeTitle destinationLabel =
     (let q = ''parking near '' @ placeTitle @ '' '' @ destinationLabel
      in case searchPlacesText P w (Query q) 5 of
           (Inl e, w') \<Rightarrow> (Inl e, w')
         | (Inr results, w') \<Rightarrow>
             (case results of
                [] \<Rightarrow> (Inr None, w')
              | best # _ \<Rightarrow>
                  (Inr (Some \<lparr>k_placeId = placeId best,
                     k_name = (case displayName best of Some n \<Rightarrow> n | None \<Rightarrow> ''Parking''),
                     k_address = formattedAddress best,
                     k_lat = map_option latitude (location best),
                     k_lng = map_option longitude (location best),
                     k_mapsUri = None\<rparr>), w')))"

definition enrichParkingMapsUri ::
  "('w, 'z) provider_scheme \<Rightarrow> 'w \<Rightarrow> ParkingOption option \<Rightarrow> ParkingOption option \<times> 'w" where
  "enrichParkingMapsUri P w parking =
     (case parking of
        None \<Rightarrow> (parking, w)
      | Some pk \<Rightarrow>
          if k_placeId pk = [] then (parking, w)
          else
            (case getPlaceDetails P w (k_placeId pk) of
               (Inl e, w') \<Rightarrow> (parking, w')
             | (Inr details, w') \<Rightarrow> (Some (pk\<lparr>k_mapsUri := googleMapsUri details\<rparr>), w')))"

text \<open>
  \<^verbatim>\<open>try { const base = await findParkingNear(...); parking = await
  enrichParkingMapsUri(key, base); } catch { parking = undefined; }\<close>
\<close>

definition lookupParking ::
  "('w, 'z) provider_scheme \<Rightarrow> 'w \<Rightarrow> string \<Rightarrow> string \<Rightarrow> ParkingOption option \<times> 'w" where
  "lookupParking P w placeTitle destination =
     (case findParkingNear P w placeTitle destination of
        (Inl e, w') \<Rightarrow> (None, w')
      | (Inr base, w') \<Rightarrow> enrichParkingMapsUri P w' base)"

text \<open>
  What both enrichment loops do with the details of a place that is not closed: photo,
  review excerpt, opening hours, parking, and the \<^verbatim>\<open>StopDetails\<close> pushed. The two loops
  differ in the title they fall back on.
\<close>

definition enrichStop ::
  "('w, 'z) provider_scheme \<Rightarrow> 'w \<Rightarrow> string \<Rightarrow> string \<Rightarrow> string \<Rightarrow> place
    \<Rightarrow> (string + StopDetails) \<times> 'w" where
  "enrichStop P w destination pid fallbackTitle details =
     (case (case photoName details of
              None \<Rightarrow> (Inr None, w)
            | Some firstPhotoName \<Rightarrow>
                if firstPhotoName = [] then (Inr None, w)
                else getPhotoUri P w firstPhotoName 1000) of
        (Inl e, w1) \<Rightarrow> (Inl e, w1)
      | (Inr photoUrl, w1) \<Rightarrow>
          (let reviewSnippet = safeText (reviewText details) 170;
               weekdayText = weekdayDescriptions details
           in case lookupParking P w1
                (case displayName details of Some n \<Rightarrow> n | None \<Rightarrow> []) destination of
                (parking, w2) \<Rightarrow>
                  (Inr \<lparr>s_placeId = pid,
                     s_title = (case displayName details of Some n \<Rightarrow> n | None \<Rightarrow> fallbackTitle),
                     s_address = formattedAddress details,
                     s_lat = (case location details of Some l \<Rightarrow> Num (latitude l) | None \<Rightarrow> NaN),
                     s_lng = (case location details of Some l \<Rightarrow> Num (longitude l) | None \<Rightarrow> NaN),
                     s_mapsUri = googleMapsUri details,
                     s_rating = rating details,
                     s_userRatingCount = userRatingCount details,
                     s_priceLevel = priceLevel details,
                     s_openNow = openNow details,
                     s_weekdayText = weekdayText,
                     s_photoUrl = photoUrl,
                     s_reviewSnippet = reviewSnippet,
                     s_parking = parking\<rparr>, w2)))"

text \<open>
  The park-once anchor parking near the first stop:
  \<^verbatim>\<open>if (parkOnce && stops.length > 0) { try { ... } catch { ... } }\<close>
\<close>

definition parkOnceLookup ::
  "('w, 'z) provider_scheme \<Rightarrow> 'w \<Rightarrow> bool \<Rightarrow> StopDetails list \<Rightarrow> string
    \<Rightarrow> ParkingOption option \<times> 'w" where
  "parkOnceLookup P w parkOnce stops destination =
     (case stops of
        [] \<Rightarrow> (None, w)
      | first # _ \<Rightarrow>
          if parkOnce then lookupParking P w (s_title first) destination else (None, w))"

text \<open>\<^verbatim>\<open>parkOnceLocation?.lat != null && parkOnceLocation?.lng != null\<close>\<close>

definition hasCoords :: "ParkingOption option \<Rightarrow> bool" where
  "hasCoords pk = (case pk of None \<Rightarrow> False | Some k \<Rightarrow> k_lat k \<noteq> None \<and> k_lng k \<noteq> None)"

text \<open>
  \<^verbatim>\<open>for (let i = 0; i < stops.length - 1; i++)\<close>: one route request per pair of
  consecutive stops, in order, each leg with the buffer added. A request that throws ends
  the loop. In \<open>travelLegs\<close> the walking branch reads the first stop and the parking
  coordinates, which its condition has made sure of.
\<close>

fun pairLegs ::
  "('w, 'z) provider_scheme \<Rightarrow> 'w \<Rightarrow> travelMode \<Rightarrow> real \<Rightarrow> StopDetails list
    \<Rightarrow> (string + real list) \<times> 'w" where
  "pairLegs P w mode bufferMinutes (a # b # rest) =
     (case computeRouteMinutes P w (s_lat a, s_lng a) (s_lat b, s_lng b) mode of
        (Inl e, w') \<Rightarrow> (Inl e, w')
      | (Inr mins, w') \<Rightarrow>
          (case pairLegs P w' mode bufferMinutes (b # rest) of
             (Inl e, w'') \<Rightarrow> (Inl e, w'')
           | (Inr later, w'') \<Rightarrow> (Inr ((mins + bufferMinutes) # later), w'')))"
| "pairLegs P w mode bufferMinutes stops = (Inr [], w)"

definition travelLegs ::
  "('w, 'z) provider_scheme \<Rightarrow> 'w \<Rightarrow> bool \<Rightarrow> ParkingOption option \<Rightarrow> real \<Rightarrow> StopDetails list
    \<Rightarrow> (string + real list) \<times> 'w" where
  "travelLegs P w parkOnce parkOnceLocation bufferMinutes stops =
     (if parkOnce \<and> hasCoords parkOnceLocation \<and> stops \<noteq> []
      then
        (let firstStop = hd stops;
             pk = the parkOnceLocation
         in case computeRouteMinutes P w (Num (the (k_lat pk)), Num (the (k_lng pk)))
                   (s_lat firstStop, s_lng firstStop) WALK of
              (Inl e, w') \<Rightarrow> (Inl e, w')
            | (Inr fromParkingToFirst, w') \<Rightarrow>
                (case pairLegs P w' WALK bufferMinutes stops of
                   (Inl e, w'') \<Rightarrow> (Inl e, w'')
                 | (Inr later, w'') \<Rightarrow> (Inr ((fromParkingToFirst + bufferMinutes) # later), w'')))
      else pairLegs P w DRIVE bufferMinutes stops)"

section \<open>Assembling the items\<close>

text \<open>\<^verbatim>\<open>xs[i] ?? d\<close>\<close>

definition nthOr :: "'a list \<Rightarrow> nat \<Rightarrow> 'a \<Rightarrow> 'a" where
  "nthOr xs i d = (if i < length xs then xs ! i else d)"

definition titleOr :: "StopDetails list \<Rightarrow> nat \<Rightarrow> string \<Rightarrow> string" where
  "titleOr stops i d = (if i < length stops then s_title (stops ! i) else d)"

definition parkingStop :: "ParkingOption \<Rightarrow> PlanItem" where
  "parkingStop pk =
     Stop 5 \<lparr>s_placeId = (if k_placeId pk = [] then ''parking'' else k_placeId pk),
       s_title = ''Park once'',
       s_address = k_address pk,
       s_lat = (case k_lat pk of Some x \<Rightarrow> Num x | None \<Rightarrow> NaN),
       s_lng = (case k_lng pk of Some x \<Rightarrow> Num x | None \<Rightarrow> NaN),
       s_mapsUri = k_mapsUri pk,
       s_rating = None,
       s_userRatingCount = None,
       s_priceLevel = None,
       s_openNow = None,
       s_weekdayText = None,
       s_photoUrl = None,
       s_reviewSnippet = None,
       s_parking = Some \<lparr>k_placeId = k_placeId pk, k_name = k_name pk, k_address = k_address pk,
         k_lat = k_lat pk, k_lng = k_lng pk, k_mapsUri = k_mapsUri pk\<rparr>\<rparr>"

text \<open>
  The two branches that fill \<^verbatim>\<open>items\<close>. \<open>dur i\<close> is the duration of stop \<open>i\<close>:
  \<^verbatim>\<open>stopDurations[i] ?? 40\<close> on a swap, \<^verbatim>\<open>Math.max(25, stopDurations[i] ?? 40)\<close> on a fresh
  plan.
\<close>

definition walkItems :: "ParkingOption \<Rightarrow> StopDetails list \<Rightarrow> real list \<Rightarrow> (nat \<Rightarrow> real) \<Rightarrow> PlanItem list" where
  "walkItems pk stops travelMins dur =
     [parkingStop pk]
     @ (if travelMins \<noteq> [] then [Travel (''Walk to '' @ titleOr stops 0 ''first stop'') (travelMins ! 0) WALK]
        else [])
     @ concat (map (\<lambda>i. [Stop (dur i) (stops ! i)]
         @ (if Suc i < length stops
            then [Travel (''Walk to '' @ titleOr stops (Suc i) ''next stop'') (nthOr travelMins (Suc i) 10) WALK]
            else [])) [0..<length stops])"

definition driveItems :: "StopDetails list \<Rightarrow> real list \<Rightarrow> (nat \<Rightarrow> real) \<Rightarrow> PlanItem list" where
  "driveItems stops travelMins dur =
     concat (map (\<lambda>i. [Stop (dur i) (stops ! i)]
         @ (if i < length travelMins
            then [Travel (''Drive to '' @ titleOr stops (Suc i) ''next stop'') (travelMins ! i) DRIVE]
            else [])) [0..<length stops])"

definition planItems ::
  "bool \<Rightarrow> ParkingOption option \<Rightarrow> StopDetails list \<Rightarrow> real list \<Rightarrow> (nat \<Rightarrow> real) \<Rightarrow> PlanItem list" where
  "planItems parkOnce parkOnceLocation stops travelMins dur =
     (if parkOnce \<and> hasCoords parkOnceLocation
      then walkItems (the parkOnceLocation) stops travelMins dur
      else driveItems stops travelMins dur)"

section \<open>Reading the request\<close>

text \<open>
  What both branches of \<^verbatim>\<open>POST\<close> read from the body before anything else:
  \<^verbatim>\<open>destination\<close>, \<^verbatim>\<open>totalMinutes\<close>, \<^verbatim>\<open>vibeLabel\<close>, \<^verbatim>\<open>vibesFinal\<close>, \<^verbatim>\<open>parkOnce\<close>,
  \<^verbatim>\<open>riderMode\<close> and \<^verbatim>\<open>bufferMinutes\<close>.
\<close>

record request =
  q_destination :: string
  q_totalMinutes :: real
  q_vibeLabel :: string
  q_vibesFinal :: "string list"
  q_parkOnce :: bool
  q_riderMode :: bool
  q_bufferMinutes :: real

definition readRequest :: "body \<Rightarrow> request" where
  "readRequest b =
     (let vibe = stringOr (b_vibe b) ''culture'';
          vibes = (case b_vibes b of Some vs \<Rightarrow> vs | None \<Rightarrow> []);
          vibesFinal = (if vibes \<noteq> [] then vibes else [vibe])
      in \<lparr>q_destination = trim (stringOr (b_destination b) []),
          q_totalMinutes = clamp (numberOr (b_totalMinutes b) 150) 120 420,
          q_vibeLabel = (if length vibesFinal > 1 then ''mixed''
                         else (case vibesFinal of v # _ \<Rightarrow> v | [] \<Rightarrow> [])),
          q_vibesFinal = vibesFinal,
          q_parkOnce = b_parkOnce b,
          q_riderMode = b_riderMode b,
          q_bufferMinutes = clamp (numberOr (b_bufferMinutes b) 0) 0 20\<rparr>)"

definition missingKey :: "env \<Rightarrow> bool" where
  "missingKey e = (case GOOGLE_MAPS_API_KEY e of None \<Rightarrow> True | Some k \<Rightarrow> k = [])"

definition missingKeyMessage :: string where
  "missingKeyMessage = ''Missing GOOGLE_MAPS_API_KEY. Add it to .env.local and restart npm run dev.''"

definition planResponse :: "request \<Rightarrow> PlanItem list \<Rightarrow> response" where
  "planResponse q items =
     Plan \<lparr>r_destination = q_destination q,
       r_totalMinutes = q_totalMinutes q,
       r_vibe = q_vibeLabel q,
       r_vibes = q_vibesFinal q,
       r_parkOnce = q_parkOnce q,
       r_riderMode = q_riderMode q,
       r_bufferMinutes = q_bufferMinutes q,
       r_source = ''google'',
       r_items = items\<rparr>"

section \<open>The swap branch\<close>

text \<open>An element of \<^verbatim>\<open>stopsInput\<close>.\<close>

record stopInput =
  in_placeId :: string
  in_title :: string
  in_durationMin :: real
  in_lat :: jsnum
  in_lng :: jsnum

definition readStop :: "rawStop \<Rightarrow> stopInput" where
  "readStop s =
     \<lparr>in_placeId = trim (stringOr (raw_placeId s) []),
      in_title = trim (stringOr (raw_title s) []),
      in_durationMin = clamp (numberOr (raw_durationMin s) 40) 20 180,
      in_lat = raw_lat s,
      in_lng = raw_lng s\<rparr>"

definition stopsInput :: "rawStop list \<Rightarrow> stopInput list" where
  "stopsInput rawStops = filter (\<lambda>s. in_placeId s \<noteq> []) (map readStop rawStops)"

text \<open>
  A number used as an array index. \<^verbatim>\<open>xs[r]\<close> is an element only when \<open>r\<close> is a whole
  number below the length; an assignment \<^verbatim>\<open>xs[r] = v\<close> at any other \<open>r\<close> between 0 and the
  length sets a property that is no element, and the elements stay as they are.
\<close>

definition arrayIndex :: "real \<Rightarrow> nat option" where
  "arrayIndex r = (if 0 \<le> r \<and> r = of_int \<lfloor>r\<rfloor> then Some (nat \<lfloor>r\<rfloor>) else None)"

definition elementAt :: "'a list \<Rightarrow> real \<Rightarrow> 'a option" where
  "elementAt xs r =
     (case arrayIndex r of
        None \<Rightarrow> None
      | Some i \<Rightarrow> if i < length xs then Some (xs ! i) else None)"

text \<open>
  What the swap branch has read once the request has passed every check: the common
  fields (\<open>sw_request\<close>), \<^verbatim>\<open>stopsInput\<close>, \<^verbatim>\<open>swapIndex\<close>, \<^verbatim>\<open>swapPlaceId\<close> and \<^verbatim>\<open>swapCenter\<close>.
\<close>

record swapRequest =
  sw_request :: request
  sw_stopsInput :: "stopInput list"
  sw_swapIndex :: real
  sw_swapPlaceId :: string
  sw_swapCenter :: LatLng

text \<open>The checks of the swap branch, in the order of the source; \<open>Inl\<close> is an early return.\<close>

definition readSwap :: "env \<Rightarrow> body \<Rightarrow> failure + swapRequest" where
  "readSwap e b =
     (let q = readRequest b;
          swapIndex = clamp (numberOr (b_swapIndex b) (- 1)) 0 10;
          swapPlaceId = trim (stringOr (b_swapPlaceId b) []);
          swapLat = b_swapLat b;
          swapLng = b_swapLng b;
          stopsIn = stopsInput (b_stops b)
      in if q_destination q = [] then Inl (400, ''Destination is required'')
         else if missingKey e then Inl (500, missingKeyMessage)
         else if length stopsIn < 2 then Inl (400, ''Not enough stops to swap'')
         else if swapIndex < 0 \<or> swapIndex \<ge> real (length stopsIn)
           then Inl (400, ''Invalid swap index'')
         else
           (let currentStop = elementAt stopsIn swapIndex;
                centerLat = (if isFinite swapLat then swapLat
                             else (case currentStop of Some s \<Rightarrow> in_lat s | None \<Rightarrow> NaN));
                centerLng = (if isFinite swapLng then swapLng
                             else (case currentStop of Some s \<Rightarrow> in_lng s | None \<Rightarrow> NaN))
            in if swapPlaceId = [] \<or> \<not> isFinite centerLat \<or> \<not> isFinite centerLng
               then Inl (400, ''Invalid swap request'')
               else Inr \<lparr>sw_request = q,
                      sw_stopsInput = stopsIn,
                      sw_swapIndex = swapIndex,
                      sw_swapPlaceId = swapPlaceId,
                      sw_swapCenter = \<lparr>latitude = theNum centerLat, longitude = theNum centerLng\<rparr>\<rparr>))"

text \<open>
  The two provider calls that find the candidates: the details of the stop being swapped
  (for its category; \<^verbatim>\<open>swapTypes = []\<close> when the call throws) and the nearby search for
  up to 30 places (\<^verbatim>\<open>candidates = []\<close> when it throws).
\<close>

definition nearbyQuery :: "category \<Rightarrow> LatLng \<Rightarrow> textQuery" where
  "nearbyQuery targetCategory c =
     (if targetCategory = Food then QueryNear ''cafes restaurants near '' (latitude c) (longitude c)
      else if targetCategory = Park then QueryNear ''parks viewpoints near '' (latitude c) (longitude c)
      else QueryNear ''tourist attractions museums near '' (latitude c) (longitude c))"

definition swapSearch ::
  "('w, 'z) provider_scheme \<Rightarrow> 'w \<Rightarrow> swapRequest \<Rightarrow> (category \<times> place list) \<times> 'w" where
  "swapSearch P w sr =
     (case (case getPlaceDetails P w (sw_swapPlaceId sr) of
              (Inl e, w1) \<Rightarrow> ([], w1)
            | (Inr d, w1) \<Rightarrow> (types d, w1)) of
        (swapTypes, w1) \<Rightarrow>
          (let targetCategory = pickCategory swapTypes
           in case searchPlacesText P w1 (nearbyQuery targetCategory (sw_swapCenter sr)) 30 of
                (Inl e, w2) \<Rightarrow> ((targetCategory, []), w2)
              | (Inr candidates, w2) \<Rightarrow> ((targetCategory, candidates), w2)))"

definition excludeIds :: "swapRequest \<Rightarrow> string set" where
  "excludeIds sr = set (map in_placeId (sw_stopsInput sr)) - {sw_swapPlaceId sr}"

text \<open>
  \<^verbatim>\<open>filtered\<close> of the swap branch. The last filter reads \<^verbatim>\<open>p.location\<close>, which the first
  filter has made sure of.
\<close>

definition swapFiltered :: "swapRequest \<Rightarrow> category \<Rightarrow> place list \<Rightarrow> place list" where
  "swapFiltered sr targetCategory candidates =
     (let maxKm = (if q_parkOnce (sw_request sr) then 2.0 else 4.0)
      in sortByScore (q_riderMode (sw_request sr))
           (filter (\<lambda>p. case location p of
                          Some l \<Rightarrow> haversineKm (sw_swapCenter sr) l \<le> maxKm
                        | None \<Rightarrow> False)
           (filter (\<lambda>p. pickCategory (types p) = targetCategory)
           (filter (\<lambda>p. \<not> isNoisyType (types p))
           (filter (\<lambda>p. placeId p \<notin> excludeIds sr)
           (filter (\<lambda>p. placeId p \<noteq> [] \<and> location p \<noteq> None) candidates))))))"

text \<open>
  \<^verbatim>\<open>for (const cand of filtered.slice(0, 12))\<close>: the function is applied to
  \<open>take 12 filtered\<close>. A candidate whose details cannot be fetched, or whose details say
  \<^verbatim>\<open>openNow === false\<close>, is passed over; the first other candidate is the replacement.
\<close>

fun findReplacement ::
  "('w, 'z) provider_scheme \<Rightarrow> 'w \<Rightarrow> place list \<Rightarrow> place option \<times> 'w" where
  "findReplacement P w [] = (None, w)"
| "findReplacement P w (cand # cands) =
     (let candId = placeId cand
      in if candId = [] then findReplacement P w cands
         else
           (case getPlaceDetails P w candId of
              (Inl e, w') \<Rightarrow> findReplacement P w' cands
            | (Inr details, w') \<Rightarrow>
                if openNow details = Some False then findReplacement P w' cands
                else (Some cand, w')))"

text \<open>
  A candidate that the loop passes over when it meets it in the state \<open>w\<close>: it has no
  id, or its details cannot be fetched, or they say \<^verbatim>\<open>openNow === false\<close>.
\<close>

definition rejects :: "('w, 'z) provider_scheme \<Rightarrow> 'w \<Rightarrow> place \<Rightarrow> bool" where
  "rejects P w cand =
     (placeId cand = []
      \<or> (case getPlaceDetails P w (placeId cand) of
            (Inl e, w') \<Rightarrow> True
          | (Inr details, w') \<Rightarrow> openNow details = Some False))"

text \<open>
  \<^verbatim>\<open>const nextStops = [...stopsInput]; nextStops[swapIndex] = { ...nextStops[swapIndex],
  placeId: String(replacement.id) };\<close>
\<close>

definition nextStops :: "swapRequest \<Rightarrow> place \<Rightarrow> stopInput list" where
  "nextStops sr replacement =
     (case arrayIndex (sw_swapIndex sr) of
        None \<Rightarrow> sw_stopsInput sr
      | Some i \<Rightarrow>
          if i < length (sw_stopsInput sr)
          then (sw_stopsInput sr)[i := (sw_stopsInput sr ! i)\<lparr>in_placeId := placeId replacement\<rparr>]
          else sw_stopsInput sr)"

definition closedMessage :: "place \<Rightarrow> string" where
  "closedMessage details =
     ''One of the stops is closed right now (''
     @ (case displayName details of Some n \<Rightarrow> n | None \<Rightarrow> ''Place'')
     @ ''). Please regenerate.''"

text \<open>
  The enrichment loop of the swap branch, \<^verbatim>\<open>for (const s of nextStops)\<close>, with the stops
  pushed so far. A call that throws leaves through the handler's \<^verbatim>\<open>catch\<close> with status
  500; a stop that is closed right now ends the request with status 404.
\<close>

fun enrichSwap ::
  "('w, 'z) provider_scheme \<Rightarrow> string \<Rightarrow> 'w \<Rightarrow> stopInput list \<Rightarrow> StopDetails list
    \<Rightarrow> (failure + StopDetails list) \<times> 'w" where
  "enrichSwap P destination w [] stops = (Inr stops, w)"
| "enrichSwap P destination w (s # rest) stops =
     (case getPlaceDetails P w (in_placeId s) of
        (Inl e, w1) \<Rightarrow> (Inl (500, e), w1)
      | (Inr details, w1) \<Rightarrow>
          if openNow details = Some False then (Inl (404, closedMessage details), w1)
          else
            (case enrichStop P w1 destination (in_placeId s) (in_title s) details of
               (Inl e, w2) \<Rightarrow> (Inl (500, e), w2)
             | (Inr stop, w2) \<Rightarrow> enrichSwap P destination w2 rest (stops @ [stop])))"

text \<open>
  From the parking lookup to the response, for stops and a duration per stop. Both
  branches of \<^verbatim>\<open>POST\<close> end this way; on a fresh plan the durations depend on the travel
  minutes, so \<open>durs\<close> takes them.
\<close>

definition finishPlan ::
  "('w, 'z) provider_scheme \<Rightarrow> 'w \<Rightarrow> request \<Rightarrow> StopDetails list \<Rightarrow> (real list \<Rightarrow> nat \<Rightarrow> real)
    \<Rightarrow> response \<times> 'w" where
  "finishPlan P w q stops durs =
     (case parkOnceLookup P w (q_parkOnce q) stops (q_destination q) of
        (parkOnceLocation, w1) \<Rightarrow>
          (case travelLegs P w1 (q_parkOnce q) parkOnceLocation (q_bufferMinutes q) stops of
             (Inl e, w2) \<Rightarrow> (Error 500 e, w2)
           | (Inr travelMins, w2) \<Rightarrow>
               (planResponse q
                  (planItems (q_parkOnce q) parkOnceLocation stops travelMins (durs travelMins)),
                w2)))"

text \<open>
  \<^verbatim>\<open>const stopDurations = nextStops.map((s) => clamp(Number(s?.durationMin ?? 40), 20,
  180));\<close> and \<^verbatim>\<open>durationMin: stopDurations[i] ?? 40\<close>
\<close>

definition swapDurations :: "stopInput list \<Rightarrow> real list" where
  "swapDurations next = map (\<lambda>s. clamp (Num (in_durationMin s)) 20 180) next"

definition swapRebuild ::
  "('w, 'z) provider_scheme \<Rightarrow> 'w \<Rightarrow> swapRequest \<Rightarrow> place \<Rightarrow> response \<times> 'w" where
  "swapRebuild P w sr replacement =
     (let next = nextStops sr replacement
      in case enrichSwap P (q_destination (sw_request sr)) w next [] of
           (Inl f, w1) \<Rightarrow> (errorResponse f, w1)
         | (Inr stops, w1) \<Rightarrow>
             finishPlan P w1 (sw_request sr) stops
               (\<lambda>travelMins i. nthOr (swapDurations next) i 40))"

definition noReplacementMessage :: string where
  "noReplacementMessage = ''No OPEN replacement found nearby''"

definition swapPOST :: "('w, 'z) provider_scheme \<Rightarrow> env \<Rightarrow> 'w \<Rightarrow> body \<Rightarrow> response \<times> 'w" where
  "swapPOST P e w b =
     (case readSwap e b of
        Inl f \<Rightarrow> (errorResponse f, w)
      | Inr sr \<Rightarrow>
          (case swapSearch P w sr of
             ((targetCategory, candidates), w1) \<Rightarrow>
               (let filtered = swapFiltered sr targetCategory candidates
                in case findReplacement P w1 (take 12 filtered) of
                     (None, w2) \<Rightarrow> (Error 404 noReplacementMessage, w2)
                   | (Some replacement, w2) \<Rightarrow> swapRebuild P w2 sr replacement)))"

section \<open>The fresh plan\<close>

text \<open>
  \<^verbatim>\<open>Promise.all(queries.map((q) => searchPlacesText(key, q, n)))\<close>: one that throws makes
  the handler leave through its \<^verbatim>\<open>catch\<close>. The code sends all the requests at once, and
  of several that throw the one that is rejected first in time is caught. \<open>searchAll\<close>
  sends them one after another in the order of the list and stops at the first that
  throws. When none throws the results are the same, in the order of the list. When one
  throws, the response is a 500 in both; the message can be that of another request than
  the code's, and the provider has not seen the requests behind the failing one.
\<close>

fun searchAll ::
  "('w, 'z) provider_scheme \<Rightarrow> 'w \<Rightarrow> nat \<Rightarrow> string list \<Rightarrow> (string + place list list) \<times> 'w" where
  "searchAll P w n [] = (Inr [], w)"
| "searchAll P w n (q # qs) =
     (case searchPlacesText P w (Query q) n of
        (Inl e, w1) \<Rightarrow> (Inl e, w1)
      | (Inr found, w1) \<Rightarrow>
          (case searchAll P w1 n qs of
             (Inl e, w2) \<Rightarrow> (Inl e, w2)
           | (Inr later, w2) \<Rightarrow> (Inr (found # later), w2)))"

text \<open>
  \<^verbatim>\<open>byId\<close>: the first place of each id, in the order of first occurrence; places without
  an id are left out. \<open>seen\<close> are the ids already in the map.
\<close>

fun dedupeById :: "string list \<Rightarrow> place list \<Rightarrow> place list" where
  "dedupeById seen [] = []"
| "dedupeById seen (p # ps) =
     (if placeId p \<noteq> [] \<and> placeId p \<notin> set seen then p # dedupeById (placeId p # seen) ps
      else dedupeById seen ps)"

text \<open>
  The searches of a fresh plan: the destination itself (for \<^verbatim>\<open>destCenter\<close>), one search
  per vibe, then the five fixed searches. The result is \<^verbatim>\<open>destCenter\<close> and \<^verbatim>\<open>pooled\<close>.
\<close>

definition freshPool ::
  "('w, 'z) provider_scheme \<Rightarrow> 'w \<Rightarrow> request \<Rightarrow> (string + LatLng option \<times> place list) \<times> 'w" where
  "freshPool P w q =
     (let destination = q_destination q;
          vibeQueries = map (\<lambda>v. vibeToQuery v destination) (q_vibesFinal q)
      in case searchPlacesText P w (Query destination) 3 of
           (Inl e, w1) \<Rightarrow> (Inl e, w1)
         | (Inr destPlaces, w1) \<Rightarrow>
             (let destCenter = (case destPlaces of [] \<Rightarrow> None | d # _ \<Rightarrow> location d);
                  qAttraction = ''top attractions museums landmarks in '' @ destination;
                  qFood = ''best cafes restaurants bakeries in '' @ destination;
                  qPark = ''best parks viewpoints waterfront in '' @ destination;
                  qScenic = ''scenic viewpoints waterfront drives in '' @ destination;
                  qRideCoffee = ''coffee stops with parking in '' @ destination
              in case searchAll P w1 20 vibeQueries of
                   (Inl e, w2) \<Rightarrow> (Inl e, w2)
                 | (Inr vibeResults, w2) \<Rightarrow>
                     (case searchAll P w2 20
                             [qAttraction, qFood, qPark, qScenic,
                              if q_riderMode q then qRideCoffee else qFood] of
                        (Inl e, w3) \<Rightarrow> (Inl e, w3)
                      | (Inr fixed, w3) \<Rightarrow>
                          (let candA = nthOr fixed 0 [];
                               candF = nthOr fixed 1 [];
                               candP = nthOr fixed 2 [];
                               candScenic = nthOr fixed 3 [];
                               candRideCoffee = nthOr fixed 4 [];
                               candVibe = concat vibeResults
                           in (Inr (destCenter,
                                 dedupeById []
                                   (candA @ candF @ candP @ candVibe @ candScenic @ candRideCoffee)),
                               w3)))))"

text \<open>
  \<^verbatim>\<open>new Set(excludePlaceIds.map((x) => String(x)).filter(Boolean))\<close>
\<close>

definition excludeSet :: "body \<Rightarrow> string set" where
  "excludeSet b =
     set (filter (\<lambda>x. x \<noteq> []) (case b_excludePlaceIds b of Some xs \<Rightarrow> xs | None \<Rightarrow> []))"

text \<open>
  The last filter of \<^verbatim>\<open>filtered\<close>: the rating-confidence gate and the radius around the
  destination centre. \<^verbatim>\<open>p.location\<close> is there: the second filter has made sure of it.
\<close>

definition qualityGate :: "LatLng option \<Rightarrow> place \<Rightarrow> bool" where
  "qualityGate destCenter p =
     (let rating = (case rating p of Some r \<Rightarrow> r | None \<Rightarrow> 0);
          count = (case userRatingCount p of Some c \<Rightarrow> c | None \<Rightarrow> 0);
          radiusKm = 10
      in if count \<ge> 20 \<and> rating > 0 \<and> rating < 4.1 then False
         else if count \<ge> 5 \<and> rating > 0 \<and> rating < 3.9 then False
         else
           (case destCenter of
              None \<Rightarrow> True
            | Some c \<Rightarrow>
                (case location p of
                   None \<Rightarrow> True
                 | Some l \<Rightarrow> if haversineKm c l > radiusKm then False else True)))"

definition freshFiltered :: "bool \<Rightarrow> string set \<Rightarrow> LatLng option \<Rightarrow> place list \<Rightarrow> place list" where
  "freshFiltered riderMode excluded destCenter pooled =
     sortByScore riderMode
       (filter (qualityGate destCenter)
       (filter (\<lambda>p. \<not> isNoisyType (types p))
       (filter (\<lambda>p. placeId p \<noteq> [] \<and> location p \<noteq> None)
       (filter (\<lambda>p. placeId p \<noteq> [] \<and> placeId p \<notin> excluded) pooled))))"

text \<open>\<^verbatim>\<open>!picked.some((x) => x.id === p.id)\<close>\<close>

definition unpicked :: "place list \<Rightarrow> place \<Rightarrow> bool" where
  "unpicked picked p = (\<not> (\<exists>x \<in> set picked. placeId x = placeId p))"

definition pickFromPool :: "place list \<Rightarrow> place list \<Rightarrow> category \<Rightarrow> place option" where
  "pickFromPool picked pool cat =
     find (\<lambda>p. pickCategory (types p) = cat \<and> unpicked picked p) pool"

text \<open>\<^verbatim>\<open>fillFrom\<close>: the \<^verbatim>\<open>while (picked.length < stopCount)\<close> loop.\<close>

function fillFrom :: "nat \<Rightarrow> place list \<Rightarrow> place list \<Rightarrow> place list" where
  "fillFrom stopCount pool picked =
     (if length picked < stopCount
      then (case find (unpicked picked) pool of
              None \<Rightarrow> picked
            | Some next \<Rightarrow> fillFrom stopCount pool (picked @ [next]))
      else picked)"
  by pat_completeness auto
termination
  by (relation "measure (\<lambda>(stopCount, pool, picked). stopCount - length picked)") auto

declare fillFrom.simps [simp del]

definition withinKm :: "LatLng \<Rightarrow> real \<Rightarrow> place list \<Rightarrow> place list" where
  "withinKm anchorLoc km ps =
     filter (\<lambda>p. case location p of
                   None \<Rightarrow> False
                 | Some loc \<Rightarrow> haversineKm anchorLoc loc \<le> km) ps"

text \<open>
  From \<^verbatim>\<open>want\<close> to \<^verbatim>\<open>picked\<close>: the anchor, one place per remaining wanted category
  (primary pool, then relaxed pool, then all of \<^verbatim>\<open>filtered\<close>), then the three fills.
  The result is the anchor's location and \<^verbatim>\<open>picked\<close>.
\<close>

definition pickStops ::
  "request \<Rightarrow> nat \<Rightarrow> place list \<Rightarrow> LatLng option \<times> place list" where
  "pickStops q stopCount filtered =
     (let want = desiredCategoriesMulti (q_vibesFinal q) stopCount;
          walkKmPrimary = 1.5;
          walkKmRelaxed = 3;
          anchor = (case (case want of
                            [] \<Rightarrow> None
                          | anchorCat # _ \<Rightarrow> find (\<lambda>p. pickCategory (types p) = anchorCat) filtered) of
                      Some a \<Rightarrow> Some a
                    | None \<Rightarrow> (case filtered of [] \<Rightarrow> None | a # _ \<Rightarrow> Some a));
          picked0 = (case anchor of None \<Rightarrow> [] | Some a \<Rightarrow> [a]);
          anchorLoc = (case anchor of None \<Rightarrow> None | Some a \<Rightarrow> location a);
          poolPrimary = (case anchorLoc of
                           Some l \<Rightarrow> if q_parkOnce q then withinKm l walkKmPrimary filtered else filtered
                         | None \<Rightarrow> filtered);
          poolRelaxed = (case anchorLoc of
                           Some l \<Rightarrow> if q_parkOnce q then withinKm l walkKmRelaxed filtered else filtered
                         | None \<Rightarrow> filtered);
          picked1 = fold (\<lambda>cat picked.
                       (case pickFromPool picked poolPrimary cat of
                          Some next \<Rightarrow> picked @ [next]
                        | None \<Rightarrow>
                            (case pickFromPool picked poolRelaxed cat of
                               Some next \<Rightarrow> picked @ [next]
                             | None \<Rightarrow>
                                 (case pickFromPool picked filtered cat of
                                    Some next \<Rightarrow> picked @ [next]
                                  | None \<Rightarrow> picked))))
                     (drop 1 want) picked0
      in (anchorLoc,
          fillFrom stopCount filtered
            (fillFrom stopCount poolRelaxed
              (fillFrom stopCount poolPrimary picked1))))"

text \<open>
  From \<^verbatim>\<open>picked\<close> to \<^verbatim>\<open>candidatesOrdered\<close>: nearest-neighbour order (behind the anchor
  when parking once), then, in rider mode with three or more stops, the stops behind the
  first by their distance from the anchor. Every place here comes from \<^verbatim>\<open>filtered\<close> and
  has a location.
\<close>

definition orderStops :: "request \<Rightarrow> LatLng option \<Rightarrow> place list \<Rightarrow> place list" where
  "orderStops q anchorLoc picked =
     (let ordered =
            (if q_parkOnce q
             then (case picked of
                     [] \<Rightarrow> []
                   | first # others \<Rightarrow> first # orderByNearestNeighbor others (q_riderMode q))
             else orderByNearestNeighbor picked (q_riderMode q))
      in case anchorLoc of
           None \<Rightarrow> ordered
         | Some l \<Rightarrow>
             if q_riderMode q \<and> length ordered \<ge> 3
             then (case ordered of
                     [] \<Rightarrow> []
                   | first # others \<Rightarrow>
                       first # sort_key (\<lambda>p. case location p of
                                               Some lp \<Rightarrow> haversineKm l lp
                                             | None \<Rightarrow> 0) others)
             else ordered)"

text \<open>
  The enrichment loop of a fresh plan, \<^verbatim>\<open>for (const p of candidatesOrdered)\<close>, with the
  \<^verbatim>\<open>stops\<close>, \<^verbatim>\<open>usedIds\<close> and \<^verbatim>\<open>attempts\<close> so far. A place that is closed right now is
  passed over; a call that throws leaves through the handler's \<^verbatim>\<open>catch\<close>.
\<close>

fun enrichFresh ::
  "('w, 'z) provider_scheme \<Rightarrow> string \<Rightarrow> nat \<Rightarrow> nat \<Rightarrow> 'w \<Rightarrow> place list \<Rightarrow> StopDetails list
    \<Rightarrow> string list \<Rightarrow> nat \<Rightarrow> (string + StopDetails list) \<times> 'w" where
  "enrichFresh P destination stopCount maxAttempts w [] stops usedIds attempts = (Inr stops, w)"
| "enrichFresh P destination stopCount maxAttempts w (p # ps) stops usedIds attempts =
     (if length stops \<ge> stopCount then (Inr stops, w)
      else if attempts \<ge> maxAttempts then (Inr stops, w)
      else if placeId p = [] then
        enrichFresh P destination stopCount maxAttempts w ps stops usedIds (Suc attempts)
      else if placeId p \<in> set usedIds then
        enrichFresh P destination stopCount maxAttempts w ps stops usedIds (Suc attempts)
      else
        (case getPlaceDetails P w (placeId p) of
           (Inl e, w1) \<Rightarrow> (Inl e, w1)
         | (Inr details, w1) \<Rightarrow>
             if openNow details = Some False then
               enrichFresh P destination stopCount maxAttempts w1 ps stops
                 (placeId p # usedIds) (Suc attempts)
             else
               (case enrichStop P w1 destination (placeId p) ''Place'' details of
                  (Inl e, w2) \<Rightarrow> (Inl e, w2)
                | (Inr stop, w2) \<Rightarrow>
                    enrichFresh P destination stopCount maxAttempts w2 ps (stops @ [stop])
                      (placeId p # usedIds) (Suc attempts))))"

text \<open>
  \<^verbatim>\<open>const travelTotal = travelMins.reduce((x, y) => x + y, 0); const stopDurations =
  splitStopDurations(totalMinutes, travelTotal, stops.length);\<close> and
  \<^verbatim>\<open>durationMin: Math.max(25, stopDurations[i] ?? 40)\<close>
\<close>

definition freshDurations :: "real \<Rightarrow> nat \<Rightarrow> real list \<Rightarrow> nat \<Rightarrow> real" where
  "freshDurations totalMinutes n travelMins i =
     (let travelTotal = sum_list travelMins;
          stopDurations = splitStopDurations totalMinutes travelTotal n
      in max 25 (nthOr stopDurations i 40))"

text \<open>
  A fresh plan up to its stops: the checks, the candidate pool, the filters, the
  selection, the order and the enrichment. \<open>Inl\<close> is a response returned before any stop
  list exists; \<open>Inr\<close> carries what was read from the body and \<^verbatim>\<open>stops\<close>.
\<close>

definition selectStops ::
  "('w, 'z) provider_scheme \<Rightarrow> 'w \<Rightarrow> body \<Rightarrow> request \<Rightarrow> (failure + StopDetails list) \<times> 'w" where
  "selectStops P w b q =
     (case freshPool P w q of
        (Inl e, w1) \<Rightarrow> (Inl (500, e), w1)
      | (Inr (destCenter, pooled), w1) \<Rightarrow>
          (let stopCount = pickStopCount (q_totalMinutes q);
               filtered = freshFiltered (q_riderMode q) (excludeSet b) destCenter pooled
           in if length filtered < 2
              then (Inl (404, ''Not enough high-quality places found''), w1)
              else
                (case pickStops q stopCount filtered of
                   (anchorLoc, picked) \<Rightarrow>
                     (let candidatesOrdered = orderStops q anchorLoc picked;
                          maxAttempts = min (length candidatesOrdered) (stopCount * 8)
                      in case enrichFresh P (q_destination q) stopCount maxAttempts w1
                                candidatesOrdered [] [] 0 of
                           (Inl e, w2) \<Rightarrow> (Inl (500, e), w2)
                         | (Inr stops, w2) \<Rightarrow>
                             if length stops < 2
                             then (Inl (404, ''Not enough OPEN places found right now''), w2)
                             else (Inr stops, w2)))))"

definition freshStops ::
  "('w, 'z) provider_scheme \<Rightarrow> env \<Rightarrow> 'w \<Rightarrow> body
    \<Rightarrow> (failure + request \<times> StopDetails list) \<times> 'w" where
  "freshStops P e w b =
     (let q = readRequest b
      in if q_destination q = [] then (Inl (400, ''Destination is required''), w)
         else if missingKey e then (Inl (500, missingKeyMessage), w)
         else
           (case selectStops P w b q of
              (Inl f, w1) \<Rightarrow> (Inl f, w1)
            | (Inr stops, w1) \<Rightarrow> (Inr (q, stops), w1)))"

definition freshPOST :: "('w, 'z) provider_scheme \<Rightarrow> env \<Rightarrow> 'w \<Rightarrow> body \<Rightarrow> response \<times> 'w" where
  "freshPOST P e w b =
     (case freshStops P e w b of
        (Inl f, w1) \<Rightarrow> (errorResponse f, w1)
      | (Inr (q, stops), w1) \<Rightarrow>
          finishPlan P w1 q stops (freshDurations (q_totalMinutes q) (length stops)))"

section \<open>The handler\<close>

definition POST :: "('w, 'z) provider_scheme \<Rightarrow> env \<Rightarrow> 'w \<Rightarrow> body \<Rightarrow> response \<times> 'w" where
  "POST P e w b =
     (let action = trim (stringOr (b_action b) [])
      in if action = ''swap'' then swapPOST P e w b else freshPOST P e w b)"

section \<open>What a response shows\<close>

text \<open>
  The stops of an item list, in order, each with its place id and its duration; and the
  travel legs, each with its duration and its mode.
\<close>

fun stopsOf :: "PlanItem list \<Rightarrow> (string \<times> real) list" where
  "stopsOf [] = []"
| "stopsOf (Stop d s # items) = (s_placeId s, d) # stopsOf items"
| "stopsOf (Travel t d m # items) = stopsOf items"


text \<open>
  The factor by which \<^verbatim>\<open>scoreCandidate\<close> multiplies the base score: the category boost
  times the rider-mode boost. It depends on the tags and the flag only.
\<close>

definition scoreFactor :: "string list \<Rightarrow> bool \<Rightarrow> real" where
  "scoreFactor t riderMode =
     (if pickCategory t = Attraction then 1.12 else if pickCategory t = Park then 1.08 else 1.0)
     * (if riderMode \<and> (\<exists>x \<in> set t. x \<in> set scenicBoostTypes) then 1.18
        else if riderMode \<and> (''cafe'' \<in> set t \<or> ''restaurant'' \<in> set t \<or> ''bakery'' \<in> set t)
        then 1.08
        else 1)"

section \<open>Example data\<close>

text \<open>
  A place at latitude 0, longitude 0, tagged as a museum and rated 4.5, with a given id
  and a given \<open>openNow\<close>.
\<close>

definition museum :: "string \<Rightarrow> bool option \<Rightarrow> place" where
  "museum pid opn =
     \<lparr>placeId = pid, displayName = Some ''Museum'', formattedAddress = None,
      location = Some \<lparr>latitude = 0, longitude = 0\<rparr>, types = [''museum''],
      rating = Some 4.5, userRatingCount = None, priceLevel = None, openNow = opn,
      weekdayDescriptions = None, photoName = None, reviewText = None, googleMapsUri = None\<rparr>"

text \<open>
  A provider over a world without state. Every search answers with the museums A and B,
  except the parking search (the one that asks for 5 results), which throws; the details
  of an id are the museum of that id; there are no photos; every route takes 600 seconds.
\<close>

definition demoProvider :: "bool option \<Rightarrow> unit provider" where
  "demoProvider opn =
     \<lparr>searchPlacesText = (\<lambda>w q n. if n = 5 then (Inl ''no parking'', w)
                                   else (Inr [museum ''A'' opn, museum ''B'' opn], w)),
      getPlaceDetails = (\<lambda>w pid. (Inr (museum pid opn), w)),
      getPhotoUri = (\<lambda>w photo width. (Inr None, w)),
      computeRoutes = (\<lambda>w origin dest travelMode. (Inr (Some 600), w))\<rparr>"

definition demoEnv :: env where
  "demoEnv = \<lparr>GOOGLE_MAPS_API_KEY = Some ''key''\<rparr>"

text \<open>
  A swap request for the stops A and B that swaps out stop 0, whose place is A. Its total
  minutes are not a number and its buffer and durations are out of range.
\<close>

definition demoStop :: "string \<Rightarrow> rawStop" where
  "demoStop pid =
     \<lparr>raw_placeId = Some pid, raw_title = Some ''Stop'', raw_durationMin = Some (Num 250),
      raw_lat = Num 0, raw_lng = Num 0\<rparr>"

definition demoSwap :: body where
  "demoSwap =
     \<lparr>b_action = Some ''swap'', b_destination = Some ''Paris'', b_totalMinutes = Some NaN,
      b_vibe = None, b_vibes = None, b_parkOnce = False, b_riderMode = False,
      b_bufferMinutes = Some (Num 99), b_excludePlaceIds = None, b_swapIndex = Some (Num 0),
      b_swapPlaceId = Some ''A'', b_swapLat = Num 0, b_swapLng = Num 0,
      b_stops = [demoStop ''A'', demoStop ''B'']\<rparr>"


definition demoRequest :: "bool \<Rightarrow> request" where
  "demoRequest po =
     \<lparr>q_destination = ''Paris'', q_totalMinutes = 120, q_vibeLabel = ''culture'',
      q_vibesFinal = [''culture''], q_parkOnce = po, q_riderMode = False, q_bufferMinutes = 20\<rparr>"

definition demoInput :: "string \<Rightarrow> stopInput" where
  "demoInput pid = \<lparr>in_placeId = pid, in_title = ''Stop'', in_durationMin = 180,
     in_lat = Num 0, in_lng = Num 0\<rparr>"

definition demoSwapRequest :: swapRequest where
  "demoSwapRequest =
     \<lparr>sw_request = demoRequest False, sw_stopsInput = [demoInput ''A'', demoInput ''B''],
      sw_swapIndex = 0, sw_swapPlaceId = ''A'',
      sw_swapCenter = \<lparr>latitude = 0, longitude = 0\<rparr>\<rparr>"

text \<open>The enriched stop of a museum, and the plan that both requests end with.\<close>

definition demoDetails :: "string \<Rightarrow> StopDetails" where
  "demoDetails pid =
     \<lparr>s_placeId = pid, s_title = ''Museum'', s_address = None, s_lat = Num 0, s_lng = Num 0,
      s_mapsUri = None, s_rating = Some 4.5, s_userRatingCount = None, s_priceLevel = None,
      s_openNow = None, s_weekdayText = None, s_photoUrl = None, s_reviewSnippet = None,
      s_parking = None\<rparr>"

definition demoItems :: "real \<Rightarrow> real \<Rightarrow> PlanItem list" where
  "demoItems d1 d2 =
     [Stop d1 (demoDetails ''A''), Travel ''Drive to Museum'' 30 DRIVE, Stop d2 (demoDetails ''B'')]"

definition demoPlan :: "bool \<Rightarrow> real \<Rightarrow> real \<Rightarrow> plan" where
  "demoPlan po d1 d2 =
     \<lparr>r_destination = ''Paris'', r_totalMinutes = 120, r_vibe = ''culture'', r_vibes = [''culture''],
      r_parkOnce = po, r_riderMode = False, r_bufferMinutes = 20, r_source = ''google'',
      r_items = demoItems d1 d2\<rparr>"




section \<open>Clamping\<close>

lemma clamp_bounds: "mn \<le> mx \<Longrightarrow> mn \<le> clamp n mn mx \<and> clamp n mn mx \<le> mx"
  by (cases n) auto

lemma clamp_idem: "mn \<le> mx \<Longrightarrow> clamp (Num (clamp n mn mx)) mn mx = clamp n mn mx"
  by (cases n) auto

section \<open>The timing allocator\<close>

text \<open>
  C4, as the code has it. The stop durations that \<^verbatim>\<open>splitStopDurations\<close> returns sum to
  \<^verbatim>\<open>max(60, totalMinutes - travelTotal)\<close> exactly, for every stop count: the last stop
  takes what the floors leave. So for a travel total that is not negative, the durations
  plus the travel total equal \<^verbatim>\<open>max(60, totalMinutes)\<close> exactly when at least 60 minutes
  are left after travel, or there is no travel at all.
\<close>

theorem splitStopDurations_sum:
  "sum_list (splitStopDurations totalMinutes travelTotal stopCount)
     = max 60 (totalMinutes - travelTotal)
   \<and> (0 \<le> travelTotal \<longrightarrow>
        (sum_list (splitStopDurations totalMinutes travelTotal stopCount) + travelTotal
           = max 60 totalMinutes)
        = (60 \<le> totalMinutes - travelTotal \<or> travelTotal = 0))"
  by (auto simp add: splitStopDurations_def Let_def max_def)

theorem splitStopDurations_sum_witness:
  "(0::real) \<le> 30
   \<and> sum_list (splitStopDurations 150 30 3) = max 60 (150 - 30)
   \<and> sum_list (splitStopDurations 150 30 3) + 30 = max 60 150"
  using splitStopDurations_sum [of 150 30 3] by simp

text \<open>
  C4, as the claim states it, fails when travel leaves less than 60 minutes: with 120
  minutes in total, 100 of them travel, and 2 stops, the durations are 33 and 27, and
  with the travel they come to 160, which is 40 more than \<^verbatim>\<open>max(60, 120)\<close>.
\<close>

theorem splitStopDurations_sum_counterexample:
  "splitStopDurations 120 100 2 = [33, 27]
   \<and> \<bar>sum_list (splitStopDurations 120 100 2) + 100 - max 60 120\<bar> = 40"
  by (simp add: splitStopDurations_def Let_def)

section \<open>The nearest-neighbour order\<close>

lemma mset_spliceOut: "i < length xs \<Longrightarrow> add_mset (xs ! i) (mset (spliceOut i xs)) = mset xs"
  unfolding spliceOut_def
  by (metis Cons_nth_drop_Suc append_take_drop_id mset.simps(2) union_mset_add_mset_right mset_append)

lemma mset_nnLoop:
  "ordered \<noteq> [] \<Longrightarrow> mset (nnLoop ordered remaining) = mset ordered + mset remaining"
proof (induction ordered remaining rule: nnLoop.induct)
  case (1 ordered remaining)
  show ?case
  proof (cases "remaining = []")
    case True
    then show ?thesis by (subst nnLoop.simps) simp
  next
    case ne: False
    show ?thesis
    proof (cases "location (last ordered)")
      case None
      from ne obtain r rs where r: "remaining = r # rs"
        by (cases remaining) auto
      have "mset (nnLoop (ordered @ [hd remaining]) (tl remaining))
          = mset (ordered @ [hd remaining]) + mset (tl remaining)"
        using "1.IH"(1) [OF ne None] by simp
      then show ?thesis
        using ne None r by (subst nnLoop.simps) simp
    next
      case (Some lastLoc)
      let ?b = "nearestIdx lastLoc remaining 0 0 None"
      have lt: "?b < length remaining"
        using ne by (rule nearestIdx_less)
      have "mset (nnLoop (ordered @ [remaining ! ?b]) (spliceOut ?b remaining))
          = mset (ordered @ [remaining ! ?b]) + mset (spliceOut ?b remaining)"
        using "1.IH"(2) [OF ne Some refl] by simp
      then show ?thesis
        using ne Some mset_spliceOut [OF lt] by (subst nnLoop.simps) (simp add: Let_def)
    qed
  qed
qed

lemma mset_orderByNearestNeighbor: "mset (orderByNearestNeighbor xs rm) = mset xs"
proof (cases "length xs \<le> 2")
  case True
  then show ?thesis by (simp add: orderByNearestNeighbor_def)
next
  case False
  define s where "s = sortByScore rm xs"
  have ms: "mset s = mset xs"
    by (simp add: s_def sortByScore_def)
  then have "s \<noteq> []"
    using False by auto
  then obtain a rest where s: "s = a # rest"
    by (cases s) auto
  have "mset (nnLoop [hd s] (tl s)) = mset s"
    using s by (simp add: mset_nnLoop)
  then show ?thesis
    using False ms by (simp add: orderByNearestNeighbor_def Let_def s_def)
qed

text \<open>
  C6. \<^verbatim>\<open>orderByNearestNeighbor\<close> returns a list of at most two places as it is. For
  every list it returns the places of its input, each as often as the input has it; so
  when the ids of the input are distinct, so are the ids of the output, and no place id
  is visited twice. Neither needs the coordinates to be present.
\<close>

theorem orderByNearestNeighbor_no_revisit:
  "(length list \<le> 2 \<longrightarrow> orderByNearestNeighbor list riderMode = list)
   \<and> mset (orderByNearestNeighbor list riderMode) = mset list
   \<and> (distinct (map placeId list)
        \<longrightarrow> distinct (map placeId (orderByNearestNeighbor list riderMode)))"
proof (intro conjI impI)
  assume "length list \<le> 2"
  then show "orderByNearestNeighbor list riderMode = list"
    by (simp add: orderByNearestNeighbor_def)
next
  show "mset (orderByNearestNeighbor list riderMode) = mset list"
    by (rule mset_orderByNearestNeighbor)
next
  assume d: "distinct (map placeId list)"
  have "mset (map placeId (orderByNearestNeighbor list riderMode)) = mset (map placeId list)"
    by (simp add: mset_orderByNearestNeighbor)
  then show "distinct (map placeId (orderByNearestNeighbor list riderMode))"
    using d by (metis mset_eq_imp_distinct_iff)
qed

theorem orderByNearestNeighbor_no_revisit_witness:
  "length [museum ''A'' None, museum ''B'' None] \<le> 2
   \<and> orderByNearestNeighbor [museum ''A'' None, museum ''B'' None] False
       = [museum ''A'' None, museum ''B'' None]
   \<and> distinct (map placeId [museum ''A'' None, museum ''B'' None, museum ''C'' None])
   \<and> distinct (map placeId
        (orderByNearestNeighbor [museum ''A'' None, museum ''B'' None, museum ''C'' None] True))"
  using orderByNearestNeighbor_no_revisit [of "[museum ''A'' None, museum ''B'' None]" False]
    orderByNearestNeighbor_no_revisit
      [of "[museum ''A'' None, museum ''B'' None, museum ''C'' None]" True]
  by (simp add: museum_def)

section \<open>The score\<close>

lemma scoreFactor_pos: "0 < scoreFactor t rm"
  by (simp add: scoreFactor_def)

lemma scoreCandidate_factor:
  "scoreCandidate p rm =
     ((case rating p of Some r \<Rightarrow> r | None \<Rightarrow> 0) * 12
       + log 10 (max 1 (case userRatingCount p of Some c \<Rightarrow> c | None \<Rightarrow> 0)) * 8)
     * scoreFactor (types p) rm"
proof -
  define base where "base = (case rating p of Some r \<Rightarrow> r | None \<Rightarrow> 0) * 12
       + log 10 (max 1 (case userRatingCount p of Some c \<Rightarrow> c | None \<Rightarrow> 0)) * 8"
  define scenic where "scenic = (rm \<and> (\<exists>x \<in> set (types p). x \<in> set scenicBoostTypes))"
  define food where "food = (rm \<and> (''cafe'' \<in> set (types p) \<or> ''restaurant'' \<in> set (types p)
    \<or> ''bakery'' \<in> set (types p)))"
  have "scoreCandidate p rm =
      (let boost = (if pickCategory (types p) = Attraction then 1.12
                    else if pickCategory (types p) = Park then 1.08 else 1.0)
       in if scenic then base * boost * 1.18 else if food then base * boost * 1.08 else base * boost)"
    unfolding scoreCandidate_def Let_def base_def scenic_def food_def ..
  also have "\<dots> = base * scoreFactor (types p) rm"
    unfolding scoreFactor_def Let_def scenic_def [symmetric] food_def [symmetric]
    by (cases scenic; cases food) simp_all
  finally show ?thesis
    unfolding base_def .
qed

lemma score_le_score:
  assumes "types p = types p'"
    and "(case rating p of Some r \<Rightarrow> r | None \<Rightarrow> 0) \<le> (case rating p' of Some r \<Rightarrow> r | None \<Rightarrow> 0)"
    and "(case userRatingCount p of Some c \<Rightarrow> c | None \<Rightarrow> 0)
      \<le> (case userRatingCount p' of Some c \<Rightarrow> c | None \<Rightarrow> 0)"
  shows "scoreCandidate p rm \<le> scoreCandidate p' rm"
proof -
  define r where "r = (case rating p of Some r \<Rightarrow> r | None \<Rightarrow> 0)"
  define r' where "r' = (case rating p' of Some r \<Rightarrow> r | None \<Rightarrow> 0)"
  define c where "c = (case userRatingCount p of Some c \<Rightarrow> c | None \<Rightarrow> 0)"
  define c' where "c' = (case userRatingCount p' of Some c \<Rightarrow> c | None \<Rightarrow> 0)"
  have rr: "r \<le> r'"
    using assms(2) unfolding r_def r'_def .
  have cc: "c \<le> c'"
    using assms(3) unfolding c_def c'_def .
  have "max 1 c \<le> max 1 c'"
    using cc by (simp add: max_def)
  moreover have "0 < max 1 c" "0 < max 1 c'"
    by simp_all
  ultimately have "log 10 (max 1 c) \<le> log 10 (max 1 c')"
    by (simp only: log_le_cancel_iff [of 10, simplified])
  then have base: "r * 12 + log 10 (max 1 c) * 8 \<le> r' * 12 + log 10 (max 1 c') * 8"
    using rr by linarith
  have "(r * 12 + log 10 (max 1 c) * 8) * scoreFactor (types p') rm
      \<le> (r' * 12 + log 10 (max 1 c') * 8) * scoreFactor (types p') rm"
    using base scoreFactor_pos [of "types p'" rm] by (intro mult_right_mono) simp_all
  then show ?thesis
    unfolding scoreCandidate_factor assms(1) r_def r'_def c_def c'_def .
qed

text \<open>
  C7. For every place \<open>p\<close> and both values of the rider-mode flag, with the tags and all
  other fields of \<open>p\<close> fixed: a higher rating never lowers the score, and a higher
  review count never lowers it. A missing rating or review count scores as 0 does.
  (Numbers are reals here: the rounding of doubles is not modelled.)
\<close>

theorem scoreCandidate_monotone:
  "(r \<le> r' \<longrightarrow>
      scoreCandidate (p\<lparr>rating := Some r\<rparr>) riderMode
        \<le> scoreCandidate (p\<lparr>rating := Some r'\<rparr>) riderMode)
   \<and> (c \<le> c' \<longrightarrow>
      scoreCandidate (p\<lparr>userRatingCount := Some c\<rparr>) riderMode
        \<le> scoreCandidate (p\<lparr>userRatingCount := Some c'\<rparr>) riderMode)
   \<and> scoreCandidate (p\<lparr>rating := None\<rparr>) riderMode
        = scoreCandidate (p\<lparr>rating := Some 0\<rparr>) riderMode
   \<and> scoreCandidate (p\<lparr>userRatingCount := None\<rparr>) riderMode
        = scoreCandidate (p\<lparr>userRatingCount := Some 0\<rparr>) riderMode"
proof (intro conjI impI)
  assume "r \<le> r'"
  then show "scoreCandidate (p\<lparr>rating := Some r\<rparr>) riderMode
      \<le> scoreCandidate (p\<lparr>rating := Some r'\<rparr>) riderMode"
    by (intro score_le_score) simp_all
next
  assume "c \<le> c'"
  then show "scoreCandidate (p\<lparr>userRatingCount := Some c\<rparr>) riderMode
      \<le> scoreCandidate (p\<lparr>userRatingCount := Some c'\<rparr>) riderMode"
    by (intro score_le_score) simp_all
next
  show "scoreCandidate (p\<lparr>rating := None\<rparr>) riderMode
      = scoreCandidate (p\<lparr>rating := Some 0\<rparr>) riderMode"
    by (simp add: scoreCandidate_factor)
next
  show "scoreCandidate (p\<lparr>userRatingCount := None\<rparr>) riderMode
      = scoreCandidate (p\<lparr>userRatingCount := Some 0\<rparr>) riderMode"
    by (simp add: scoreCandidate_factor)
qed

theorem scoreCandidate_monotone_witness:
  "(4::real) \<le> 4.5
   \<and> scoreCandidate ((museum ''A'' None)\<lparr>rating := Some 4\<rparr>) True
       \<le> scoreCandidate ((museum ''A'' None)\<lparr>rating := Some 4.5\<rparr>) True
   \<and> (10::real) \<le> 100
   \<and> scoreCandidate ((museum ''A'' None)\<lparr>userRatingCount := Some 10\<rparr>) True
       \<le> scoreCandidate ((museum ''A'' None)\<lparr>userRatingCount := Some 100\<rparr>) True"
  using scoreCandidate_monotone
    [where r = 4 and r' = "4.5" and c = 10 and c' = 100 and p = "museum ''A'' None"
       and riderMode = True]
  by simp

section \<open>Reading an item list\<close>

lemma stopsOf_append: "stopsOf (xs @ ys) = stopsOf xs @ stopsOf ys"
  by (induction xs rule: stopsOf.induct) simp_all


lemma stopsOf_concat: "stopsOf (concat xss) = concat (map stopsOf xss)"
  by (induction xss) (simp_all add: stopsOf_append)


lemma concat_map_single: "concat (map (\<lambda>i. [f i]) xs) = map f xs"
  by (induction xs) simp_all

lemma stopsOf_optional_leg: "stopsOf (if c then [Travel t d m] else []) = []"
  by simp


lemma stopsOf_driveItems:
  "stopsOf (driveItems stops travelMins dur) = map (\<lambda>i. (s_placeId (stops ! i), dur i)) [0..<length stops]"
  by (simp add: driveItems_def stopsOf_concat comp_def stopsOf_append stopsOf_optional_leg concat_map_single)

lemma stopsOf_walkItems:
  "stopsOf (walkItems pk stops travelMins dur)
     = (if k_placeId pk = [] then ''parking'' else k_placeId pk, 5)
       # map (\<lambda>i. (s_placeId (stops ! i), dur i)) [0..<length stops]"
  by (simp add: walkItems_def parkingStop_def stopsOf_concat comp_def stopsOf_append stopsOf_optional_leg concat_map_single)

lemma stopsOf_planItems:
  "stopsOf (planItems po pk stops mins dur)
     = (if po \<and> hasCoords pk
        then [(if k_placeId (the pk) = [] then ''parking'' else k_placeId (the pk), 5)] else [])
       @ map (\<lambda>i. (s_placeId (stops ! i), dur i)) [0..<length stops]"
  by (simp add: planItems_def stopsOf_walkItems stopsOf_driveItems)





section \<open>From the stops to the response\<close>

lemma finishPlan_PlanE:
  assumes "finishPlan P w q stops durs = (Plan r, w')"
  obtains pk w1 mins where
    "parkOnceLookup P w (q_parkOnce q) stops (q_destination q) = (pk, w1)"
    "travelLegs P w1 (q_parkOnce q) pk (q_bufferMinutes q) stops = (Inr mins, w')"
    "planResponse q (planItems (q_parkOnce q) pk stops mins (durs mins)) = Plan r"
  using assms
  by (auto simp: finishPlan_def split: prod.splits sum.splits)


lemma enrichStop_placeId:
  "enrichStop P w destination pid fb details = (Inr s, w') \<Longrightarrow> s_placeId s = pid"
  by (auto simp: enrichStop_def Let_def split: prod.splits sum.splits option.splits if_splits)

section \<open>Properties of the swap branch\<close>

lemma enrichSwap_ids:
  "enrichSwap P destination w next acc = (Inr stops, w')
    \<Longrightarrow> map s_placeId stops = map s_placeId acc @ map in_placeId next"
proof (induction "next" arbitrary: w acc)
  case Nil
  then show ?case by simp
next
  case (Cons s rest)
  from Cons.prems obtain details w1 stop w2 where
    st: "enrichStop P w1 destination (in_placeId s) (in_title s) details = (Inr stop, w2)"
    and rec: "enrichSwap P destination w2 rest (acc @ [stop]) = (Inr stops, w')"
    by (auto split: prod.splits sum.splits if_splits)
  from Cons.IH [OF rec] enrichStop_placeId [OF st] show ?case by simp
qed

lemma readSwap_Inr:
  assumes "readSwap e b = Inr sr"
  shows "sw_request sr = readRequest b"
    and "sw_stopsInput sr = stopsInput (b_stops b)"
    and "sw_swapIndex sr = clamp (numberOr (b_swapIndex b) (- 1)) 0 10"
    and "sw_swapPlaceId sr = trim (stringOr (b_swapPlaceId b) [])"
    and "sw_swapPlaceId sr \<noteq> []"
  using assms by (auto simp: readSwap_def Let_def split: if_splits)


lemma swapDurations_stopsInput:
  assumes "map in_durationMin next = map in_durationMin (stopsInput raw)"
  shows "swapDurations next = map in_durationMin next"
proof -
  have "clamp (Num (in_durationMin s)) 20 180 = in_durationMin s" if "s \<in> set (stopsInput raw)" for s
  proof -
    from that have "\<exists>n. in_durationMin s = clamp n 20 180"
      by (auto simp: stopsInput_def readStop_def)
    then show ?thesis using clamp_idem [of 20 180] by auto
  qed
  then have "map (\<lambda>s. clamp (Num (in_durationMin s)) 20 180) (stopsInput raw) = map in_durationMin (stopsInput raw)"
    by simp
  moreover have "swapDurations next = map (\<lambda>d. clamp (Num d) 20 180) (map in_durationMin next)"
    by (simp add: swapDurations_def comp_def)
  ultimately show ?thesis using assms by (simp add: comp_def)
qed

lemma nextStops_entries:
  "map (\<lambda>s. (in_placeId s, in_durationMin s)) (nextStops sr rep)
     = map (\<lambda>(i, s). (if arrayIndex (sw_swapIndex sr) = Some i then placeId rep else in_placeId s,
                       in_durationMin s))
         (enumerate 0 (sw_stopsInput sr))"
proof (cases "arrayIndex (sw_swapIndex sr)")
  case None
  show ?thesis
    by (rule nth_equalityI) (auto simp: nextStops_def None nth_enumerate_eq)
next
  case (Some k)
  show ?thesis
  proof (cases "k < length (sw_stopsInput sr)")
    case True
    then show ?thesis
      by (intro nth_equalityI) (auto simp: nextStops_def Some nth_list_update nth_enumerate_eq)
  next
    case False
    then show ?thesis
      by (intro nth_equalityI) (auto simp: nextStops_def Some nth_enumerate_eq)
  qed
qed

lemma swapRebuild_stops:
  assumes "swapRebuild P w sr rep = (Plan r, w')"
    and "sw_stopsInput sr = stopsInput raw"
  shows "\<exists>parking.
      stopsOf (r_items r) = parking @ map (\<lambda>s. (in_placeId s, in_durationMin s)) (nextStops sr rep)
      \<and> (parking = [] \<or> (q_parkOnce (sw_request sr) \<and> (\<exists>k. parking = [(k, 5)])))"
proof -
  define nxt where "nxt = nextStops sr rep"
  from assms(1) obtain stops w1 where
    en: "enrichSwap P (q_destination (sw_request sr)) w nxt [] = (Inr stops, w1)"
    and fin: "finishPlan P w1 (sw_request sr) stops (\<lambda>travelMins i. nthOr (swapDurations nxt) i 40)
        = (Plan r, w')"
    by (auto simp: swapRebuild_def Let_def nxt_def errorResponse_def split: prod.splits sum.splits)
  from fin obtain pk mins where
    items: "r_items r = planItems (q_parkOnce (sw_request sr)) pk stops mins
        (\<lambda>i. nthOr (swapDurations nxt) i 40)"
    by (rule finishPlan_PlanE) (auto simp: planResponse_def)
  have ids: "map s_placeId stops = map in_placeId nxt"
    using enrichSwap_ids [OF en] by simp
  then have len: "length stops = length nxt"
    by (rule map_eq_imp_length_eq)
  have "map (\<lambda>s. (in_placeId s, in_durationMin s)) nxt
      = map (\<lambda>(i, s). (if arrayIndex (sw_swapIndex sr) = Some i then placeId rep else in_placeId s,
                       in_durationMin s)) (enumerate 0 (sw_stopsInput sr))"
    unfolding nxt_def by (rule nextStops_entries)
  then have "map snd (map (\<lambda>s. (in_placeId s, in_durationMin s)) nxt)
      = map snd (map (\<lambda>(i, s). (if arrayIndex (sw_swapIndex sr) = Some i then placeId rep else in_placeId s,
                       in_durationMin s)) (enumerate 0 (sw_stopsInput sr)))"
    by simp
  then have "map in_durationMin nxt = map in_durationMin (stopsInput raw)"
    by (simp add: comp_def case_prod_unfold assms(2) enumerate_eq_zip flip: map_map [of in_durationMin snd, unfolded comp_def])
  then have durs: "swapDurations nxt = map in_durationMin nxt"
    by (rule swapDurations_stopsInput)
  have body: "map (\<lambda>i. (s_placeId (stops ! i), nthOr (swapDurations nxt) i 40)) [0..<length stops]
      = map (\<lambda>s. (in_placeId s, in_durationMin s)) nxt"
  proof (rule nth_equalityI)
    show "length (map (\<lambda>i. (s_placeId (stops ! i), nthOr (swapDurations nxt) i 40)) [0..<length stops])
        = length (map (\<lambda>s. (in_placeId s, in_durationMin s)) nxt)"
      by (simp add: len)
  next
    fix i
    assume "i < length (map (\<lambda>i. (s_placeId (stops ! i), nthOr (swapDurations nxt) i 40)) [0..<length stops])"
    then have i: "i < length nxt" by (simp add: len)
    have "s_placeId (stops ! i) = map s_placeId stops ! i" using i len by simp
    also have "\<dots> = in_placeId (nxt ! i)" using i by (simp add: ids)
    finally show "map (\<lambda>i. (s_placeId (stops ! i), nthOr (swapDurations nxt) i 40)) [0..<length stops] ! i
        = map (\<lambda>s. (in_placeId s, in_durationMin s)) nxt ! i"
      using i len by (simp add: nthOr_def durs)
  qed
  show ?thesis
    unfolding items stopsOf_planItems body nxt_def [symmetric]
    by (cases "q_parkOnce (sw_request sr) \<and> hasCoords pk") auto
qed

lemma swapPOST_PlanE:
  assumes "swapPOST P e w b = (Plan r, w')"
  obtains sr targetCategory candidates w1 replacement w2 where
    "readSwap e b = Inr sr"
    "swapSearch P w sr = ((targetCategory, candidates), w1)"
    "findReplacement P w1 (take 12 (swapFiltered sr targetCategory candidates)) = (Some replacement, w2)"
    "swapRebuild P w2 sr replacement = (Plan r, w')"
  using assms
  by (auto simp: swapPOST_def Let_def errorResponse_def split: sum.splits prod.splits option.splits)

lemma entries_raw:
  "map (\<lambda>(i, s). (if a = Some i then x else in_placeId s, in_durationMin s))
       (enumerate 0 (stopsInput raw))
   = map (\<lambda>(i, s). (if a = Some i then x else trim (stringOr (raw_placeId s) []),
                     clamp (numberOr (raw_durationMin s) 40) 20 180))
       (enumerate 0 (filter (\<lambda>s. trim (stringOr (raw_placeId s) []) \<noteq> []) raw))"
proof -
  have "stopsInput raw = map readStop (filter (\<lambda>s. trim (stringOr (raw_placeId s) []) \<noteq> []) raw)"
    by (simp add: stopsInput_def filter_map comp_def readStop_def)
  then show ?thesis
    by (simp add: enumerate_eq_zip zip_map2 case_prod_unfold comp_def readStop_def)
qed

lemma findReplacement_Some:
  "findReplacement P w cands = (Some rep, w') \<Longrightarrow> rep \<in> set cands \<and> placeId rep \<noteq> []"
  by (induction cands arbitrary: w)
     (auto simp: Let_def split: if_splits prod.splits sum.splits)

lemma swapFiltered_subset:
  "p \<in> set (swapFiltered sr cat cands) \<Longrightarrow> p \<in> set cands \<and> placeId p \<notin> excludeIds sr
     \<and> pickCategory (types p) = cat"
  by (auto simp: swapFiltered_def sortByScore_def Let_def)

lemma findReplacement_all_rejected:
  "(\<And>cand w'. cand \<in> set cands \<Longrightarrow> rejects P w' cand) \<Longrightarrow> fst (findReplacement P w cands) = None"
proof (induction cands arbitrary: w)
  case Nil
  then show ?case by simp
next
  case (Cons c cs)
  have rest: "fst (findReplacement P w'' cs) = None" for w''
    by (rule Cons.IH) (simp add: Cons.prems)
  have "rejects P w c"
    by (rule Cons.prems) simp
  then show ?case
    using rest by (auto simp: rejects_def Let_def split: prod.splits sum.splits)
qed

lemma swapPOST_no_replacement:
  assumes "readSwap e b = Inr sr"
    and "swapSearch P w sr = ((targetCategory, candidates), w1)"
    and "findReplacement P w1 (take 12 (swapFiltered sr targetCategory candidates)) = (None, w2)"
  shows "swapPOST P e w b = (Error 404 ''No OPEN replacement found nearby'', w2)"
  using assms by (simp add: swapPOST_def Let_def noReplacementMessage_def)

lemma swapFiltered_sorted:
  "sorted_wrt (\<lambda>p p'. scoreCandidate p' (q_riderMode (sw_request sr)) \<le> scoreCandidate p (q_riderMode (sw_request sr)))
     (swapFiltered sr cat cands)"
proof -
  have "sorted (map (\<lambda>p. - scoreCandidate p rm) (sort_key (\<lambda>p. - scoreCandidate p rm) xs))" for rm xs
    by (rule sorted_sort_key)
  then have "sorted_wrt (\<lambda>p p'. scoreCandidate p' rm \<le> scoreCandidate p rm) (sort_key (\<lambda>p. - scoreCandidate p rm) xs)" for rm xs
    by (simp add: sorted_map)
  then show ?thesis
    by (simp add: swapFiltered_def sortByScore_def Let_def)
qed






section \<open>The example requests, evaluated\<close>

lemma trim_demo:
  "trim ''swap'' = ''swap''" "trim ''A'' = ''A''" "trim ''B'' = ''B''" "trim ''Stop'' = ''Stop''"
  "trim ''Paris'' = ''Paris''" "trim [] = []"
  by (simp_all add: trim_def isSpace_def)

lemma museum_fields:
  "placeId (museum pid opn) = pid"
  "displayName (museum pid opn) = Some ''Museum''"
  "formattedAddress (museum pid opn) = None"
  "location (museum pid opn) = Some \<lparr>latitude = 0, longitude = 0\<rparr>"
  "types (museum pid opn) = [''museum'']"
  "rating (museum pid opn) = Some 4.5"
  "userRatingCount (museum pid opn) = None"
  "priceLevel (museum pid opn) = None"
  "openNow (museum pid opn) = opn"
  "weekdayDescriptions (museum pid opn) = None"
  "photoName (museum pid opn) = None"
  "reviewText (museum pid opn) = None"
  "googleMapsUri (museum pid opn) = None"
  by (simp_all add: museum_def)

lemma demoProvider_fields:
  "searchPlacesText (demoProvider opn) w q n
     = (if n = 5 then (Inl ''no parking'', w) else (Inr [museum ''A'' opn, museum ''B'' opn], w))"
  "getPlaceDetails (demoProvider opn) w pid = (Inr (museum pid opn), w)"
  "getPhotoUri (demoProvider opn) w photo width = (Inr None, w)"
  "computeRoutes (demoProvider opn) w origin dest travelMode = (Inr (Some 600), w)"
  by (simp_all add: demoProvider_def)

lemma haversineKm_same: "haversineKm a a = 0"
  by (simp add: haversineKm_def)

lemma museum_category: "pickCategory [''museum''] = Attraction"
  by (simp add: pickCategory_def)

lemma museum_not_noisy: "\<not> isNoisyType [''museum'']"
  by (simp add: isNoisyType_def bad_def)

lemma readRequest_demoSwap: "readRequest demoSwap = demoRequest False"
  by (simp add: readRequest_def demoSwap_def demoRequest_def stringOr_def numberOr_def trim_demo Let_def)

lemma stopsInput_demo: "stopsInput [demoStop ''A'', demoStop ''B''] = [demoInput ''A'', demoInput ''B'']"
  by (simp add: stopsInput_def readStop_def demoStop_def demoInput_def stringOr_def numberOr_def trim_demo)

lemma readSwap_demo: "readSwap demoEnv demoSwap = Inr demoSwapRequest"
proof -
  have b: "b_swapIndex demoSwap = Some (Num 0)" "b_swapPlaceId demoSwap = Some ''A''"
    "b_swapLat demoSwap = Num 0" "b_swapLng demoSwap = Num 0"
    "b_stops demoSwap = [demoStop ''A'', demoStop ''B'']"
    by (simp_all add: demoSwap_def)
  show ?thesis
    unfolding readSwap_def readRequest_demoSwap b stopsInput_demo
    by (simp add: demoRequest_def missingKey_def demoEnv_def stringOr_def numberOr_def trim_demo
        demoSwapRequest_def demoInput_def elementAt_def arrayIndex_def Let_def)
qed

lemma swapSearch_demo:
  "swapSearch (demoProvider opn) () demoSwapRequest
     = ((Attraction, [museum ''A'' opn, museum ''B'' opn]), ())"
  by (simp add: swapSearch_def demoProvider_fields museum_fields museum_category)

lemma sortByScore_single: "sortByScore rm [p] = [p]"
  by (simp add: sortByScore_def)

lemma swapFiltered_demo:
  "swapFiltered demoSwapRequest Attraction [museum ''A'' opn, museum ''B'' opn] = [museum ''A'' opn]"
  by (simp add: swapFiltered_def excludeIds_def demoSwapRequest_def demoRequest_def demoInput_def
      museum_fields museum_category museum_not_noisy haversineKm_same sortByScore_single)

lemma lookupParking_demo: "lookupParking (demoProvider opn) () placeTitle destination = (None, ())"
  by (simp add: lookupParking_def findParkingNear_def demoProvider_fields)

lemma enrichStop_demo:
  "enrichStop (demoProvider None) () destination pid fallbackTitle (museum pid None)
     = (Inr (demoDetails pid), ())"
  by (simp add: enrichStop_def museum_fields lookupParking_demo safeText_def stringOr_def trim_demo
      demoDetails_def)

lemma nextStops_demo:
  "nextStops demoSwapRequest (museum ''A'' None) = [demoInput ''A'', demoInput ''B'']"
  by (simp add: nextStops_def demoSwapRequest_def arrayIndex_def museum_fields demoInput_def)

lemma enrichSwap_demo:
  "enrichSwap (demoProvider None) ''Paris'' () [demoInput ''A'', demoInput ''B''] []
     = (Inr [demoDetails ''A'', demoDetails ''B''], ())"
proof -
  have ids: "in_placeId (demoInput pid) = pid" for pid
    by (simp add: demoInput_def)
  show ?thesis
    by (simp add: demoProvider_fields(2) museum_fields(9) ids enrichStop_demo)
qed

lemma computeRouteMinutes_demo:
  "computeRouteMinutes (demoProvider opn) () origin dest travelMode = (Inr 10, ())"
  by (simp add: computeRouteMinutes_def demoProvider_fields toMinsFromDuration_def)

lemma pairLegs_demo:
  "pairLegs (demoProvider opn) () mode 20 [demoDetails ''A'', demoDetails ''B''] = (Inr [30], ())"
  by (simp add: computeRouteMinutes_demo)

lemma driveItems_demo:
  "dur 0 = d1 \<Longrightarrow> dur 1 = d2
    \<Longrightarrow> driveItems [demoDetails ''A'', demoDetails ''B''] [30] dur = demoItems d1 d2"
  by (simp add: driveItems_def demoItems_def titleOr_def demoDetails_def upt_rec [of 0] upt_rec [of 1] upt_rec [of 2]
      numeral_2_eq_2)

lemma finishPlan_demo:
  assumes "durs [30] 0 = d1" "durs [30] 1 = d2"
  shows "finishPlan (demoProvider opn) () (demoRequest po) [demoDetails ''A'', demoDetails ''B''] durs
     = (Plan (demoPlan po d1 d2), ())"
proof -
  have q: "q_parkOnce (demoRequest po) = po" "q_destination (demoRequest po) = ''Paris''"
    "q_bufferMinutes (demoRequest po) = 20"
    by (simp_all add: demoRequest_def)
  have look: "parkOnceLookup (demoProvider opn) () po [demoDetails ''A'', demoDetails ''B''] ''Paris'' = (None, ())"
    by (simp add: parkOnceLookup_def lookupParking_demo)
  have legs: "travelLegs (demoProvider opn) () po None 20 [demoDetails ''A'', demoDetails ''B''] = (Inr [30], ())"
    by (simp add: travelLegs_def hasCoords_def computeRouteMinutes_demo)
  have items: "planItems po None [demoDetails ''A'', demoDetails ''B''] [30] (durs [30]) = demoItems d1 d2"
    using assms by (simp add: planItems_def hasCoords_def driveItems_demo)
  show ?thesis
    by (simp add: finishPlan_def q look legs items planResponse_def demoPlan_def demoRequest_def)
qed

lemma swapRebuild_demo:
  "swapRebuild (demoProvider None) () demoSwapRequest (museum ''A'' None) = (Plan (demoPlan False 180 180), ())"
proof -
  have sr: "sw_request demoSwapRequest = demoRequest False"
    by (simp add: demoSwapRequest_def)
  have d: "q_destination (demoRequest False) = ''Paris''"
    by (simp add: demoRequest_def)
  have durs: "swapDurations [demoInput ''A'', demoInput ''B''] = [180, 180]"
    by (simp add: swapDurations_def demoInput_def)
  show ?thesis
    unfolding swapRebuild_def nextStops_demo Let_def sr d enrichSwap_demo
    by (simp add: finishPlan_demo [where ?d1.0 = 180 and ?d2.0 = 180] durs nthOr_def)
qed

lemma POST_demoSwap: "POST (demoProvider None) demoEnv () demoSwap = (Plan (demoPlan False 180 180), ())"
proof -
  have a: "b_action demoSwap = Some ''swap''"
    by (simp add: demoSwap_def)
  show ?thesis
    unfolding POST_def a swapPOST_def readSwap_demo
    by (simp add: stringOr_def trim_demo swapSearch_demo swapFiltered_demo demoProvider_fields
        museum_fields swapRebuild_demo)
qed





























section \<open>Swapping one stop\<close>

text \<open>
  C1. A swap request that ends in a plan: the stops of the plan are the caller's stops in
  the caller's order (the stops that carry a place id, the id trimmed), each with the
  caller's \<^verbatim>\<open>durationMin\<close> clamped to 20..180 (40 when it is missing). Only the stop at
  \<^verbatim>\<open>swapIndex\<close> has another place id, the replacement's; every other index keeps its
  id, and no duration is computed anew. When parking once, the synthetic park-once
  pseudo-stop of 5 minutes stands before them; it is not one of the caller's stops.
\<close>

theorem swap_keeps_other_stops:
  assumes "trim (stringOr (b_action b) []) = ''swap''"
    and "POST P e w b = (Plan r, w')"
  shows "\<exists>replacementId parking.
      stopsOf (r_items r)
        = parking
          @ map (\<lambda>(i, s).
                  (if arrayIndex (clamp (numberOr (b_swapIndex b) (- 1)) 0 10) = Some i
                   then replacementId else trim (stringOr (raw_placeId s) []),
                   clamp (numberOr (raw_durationMin s) 40) 20 180))
              (enumerate 0 (filter (\<lambda>s. trim (stringOr (raw_placeId s) []) \<noteq> []) (b_stops b)))
      \<and> (parking = [] \<or> (b_parkOnce b \<and> (\<exists>k. parking = [(k, 5)])))"
proof -
  from assms have "swapPOST P e w b = (Plan r, w')"
    by (simp add: POST_def)
  then obtain sr rep w2 where rd: "readSwap e b = Inr sr"
    and rb: "swapRebuild P w2 sr rep = (Plan r, w')"
    by (rule swapPOST_PlanE)
  note sr = readSwap_Inr [OF rd]
  from swapRebuild_stops [OF rb sr(2)] obtain parking where
    st: "stopsOf (r_items r) = parking @ map (\<lambda>s. (in_placeId s, in_durationMin s)) (nextStops sr rep)"
    and pk: "parking = [] \<or> (q_parkOnce (sw_request sr) \<and> (\<exists>k. parking = [(k, 5)]))"
    by blast
  have "q_parkOnce (sw_request sr) = b_parkOnce b"
    by (simp add: sr(1) readRequest_def Let_def)
  with pk have pk': "parking = [] \<or> (b_parkOnce b \<and> (\<exists>k. parking = [(k, 5)]))"
    by simp
  show ?thesis
    using st pk' unfolding nextStops_entries sr(2) sr(3) entries_raw
    by blast
qed

theorem swap_keeps_other_stops_witness:
  "trim (stringOr (b_action demoSwap) []) = ''swap''
   \<and> POST (demoProvider None) demoEnv () demoSwap = (Plan (demoPlan False 180 180), ())
   \<and> (\<exists>replacementId parking.
        stopsOf (r_items (demoPlan False 180 180))
          = parking
            @ map (\<lambda>(i, s).
                    (if arrayIndex (clamp (numberOr (b_swapIndex demoSwap) (- 1)) 0 10) = Some i
                     then replacementId else trim (stringOr (raw_placeId s) []),
                     clamp (numberOr (raw_durationMin s) 40) 20 180))
                (enumerate 0
                  (filter (\<lambda>s. trim (stringOr (raw_placeId s) []) \<noteq> []) (b_stops demoSwap)))
        \<and> (parking = [] \<or> (b_parkOnce demoSwap \<and> (\<exists>k. parking = [(k, 5)]))))"
proof -
  have a: "trim (stringOr (b_action demoSwap) []) = ''swap''"
    by (simp add: demoSwap_def stringOr_def trim_demo)
  show ?thesis
    by (intro conjI a POST_demoSwap swap_keeps_other_stops [OF a POST_demoSwap])
qed

text \<open>
  C2, as the code has it. \<^verbatim>\<open>excludeIds.delete(swapPlaceId)\<close> takes the swapped-out place
  out of the exclusion set. So in a swap request that ends in a plan, the replacement has
  an id, and that id is none of the caller's stop ids other than \<^verbatim>\<open>swapPlaceId\<close>; the
  swapped-out place itself stays eligible.
\<close>

theorem swap_replacement_excludes_other_stops:
  assumes "trim (stringOr (b_action b) []) = ''swap''"
    and "POST P e w b = (Plan r, w')"
  shows "\<exists>replacementId parking.
      stopsOf (r_items r)
        = parking
          @ map (\<lambda>(i, s).
                  (if arrayIndex (clamp (numberOr (b_swapIndex b) (- 1)) 0 10) = Some i
                   then replacementId else in_placeId s, in_durationMin s))
              (enumerate 0 (stopsInput (b_stops b)))
      \<and> replacementId \<noteq> []
      \<and> replacementId \<notin> set (map in_placeId (stopsInput (b_stops b)))
                            - {trim (stringOr (b_swapPlaceId b) [])}"
proof -
  from assms have "swapPOST P e w b = (Plan r, w')"
    by (simp add: POST_def)
  then obtain sr cat cands w1 rep w2 where rd: "readSwap e b = Inr sr"
    and fr: "findReplacement P w1 (take 12 (swapFiltered sr cat cands)) = (Some rep, w2)"
    and rb: "swapRebuild P w2 sr rep = (Plan r, w')"
    by (rule swapPOST_PlanE)
  note sr = readSwap_Inr [OF rd]
  from swapRebuild_stops [OF rb sr(2)] obtain parking where
    st: "stopsOf (r_items r) = parking @ map (\<lambda>s. (in_placeId s, in_durationMin s)) (nextStops sr rep)"
    by blast
  from findReplacement_Some [OF fr] have mem: "rep \<in> set (take 12 (swapFiltered sr cat cands))"
    and ne: "placeId rep \<noteq> []"
    by simp_all
  from mem have "rep \<in> set (swapFiltered sr cat cands)"
    by (rule in_set_takeD)
  then have "placeId rep \<notin> excludeIds sr"
    using swapFiltered_subset by blast
  then have ex: "placeId rep \<notin> set (map in_placeId (stopsInput (b_stops b)))
      - {trim (stringOr (b_swapPlaceId b) [])}"
    by (simp add: excludeIds_def sr(2) sr(4))
  show ?thesis
    using st ne ex unfolding nextStops_entries sr(2) sr(3)
    by blast
qed

theorem swap_replacement_excludes_other_stops_witness:
  "trim (stringOr (b_action demoSwap) []) = ''swap''
   \<and> POST (demoProvider None) demoEnv () demoSwap = (Plan (demoPlan False 180 180), ())
   \<and> (\<exists>replacementId parking.
        stopsOf (r_items (demoPlan False 180 180))
          = parking
            @ map (\<lambda>(i, s).
                    (if arrayIndex (clamp (numberOr (b_swapIndex demoSwap) (- 1)) 0 10) = Some i
                     then replacementId else in_placeId s, in_durationMin s))
                (enumerate 0 (stopsInput (b_stops demoSwap)))
        \<and> replacementId \<noteq> []
        \<and> replacementId \<notin> set (map in_placeId (stopsInput (b_stops demoSwap)))
                              - {trim (stringOr (b_swapPlaceId demoSwap) [])})"
proof -
  have a: "trim (stringOr (b_action demoSwap) []) = ''swap''"
    by (simp add: demoSwap_def stringOr_def trim_demo)
  show ?thesis
    by (intro conjI a POST_demoSwap swap_replacement_excludes_other_stops [OF a POST_demoSwap])
qed

text \<open>
  C2, as the claim states it, fails: the request swaps out stop 0, whose place is A, the
  nearby search returns A again, A is in the candidate pool \<^verbatim>\<open>filtered\<close>, the loop takes
  it as the replacement, and the plan has A at index 0 once more.
\<close>

theorem swap_replacement_counterexample:
  "b_swapIndex demoSwap = Some (Num 0)
   \<and> b_swapPlaceId demoSwap = Some ''A''
   \<and> map raw_placeId (b_stops demoSwap) = [Some ''A'', Some ''B'']
   \<and> readSwap demoEnv demoSwap = Inr demoSwapRequest
   \<and> swapSearch (demoProvider None) () demoSwapRequest
       = ((Attraction, [museum ''A'' None, museum ''B'' None]), ())
   \<and> swapFiltered demoSwapRequest Attraction [museum ''A'' None, museum ''B'' None]
       = [museum ''A'' None]
   \<and> findReplacement (demoProvider None) () (take 12 [museum ''A'' None])
       = (Some (museum ''A'' None), ())
   \<and> placeId (museum ''A'' None) = ''A''
   \<and> POST (demoProvider None) demoEnv () demoSwap = (Plan (demoPlan False 180 180), ())
   \<and> map fst (stopsOf (r_items (demoPlan False 180 180))) = [''A'', ''B'']"
proof -
  have request: "b_swapIndex demoSwap = Some (Num 0)" "b_swapPlaceId demoSwap = Some ''A''"
    "map raw_placeId (b_stops demoSwap) = [Some ''A'', Some ''B'']"
    by (simp_all add: demoSwap_def demoStop_def)
  have found: "findReplacement (demoProvider None) () (take 12 [museum ''A'' None])
      = (Some (museum ''A'' None), ())"
    by (simp add: demoProvider_fields museum_fields)
  have pid: "placeId (museum ''A'' None) = ''A''"
    by (simp add: museum_fields)
  have ids: "map fst (stopsOf (r_items (demoPlan False 180 180))) = [''A'', ''B'']"
    by (simp add: demoPlan_def demoItems_def demoDetails_def)
  show ?thesis
    by (intro conjI request readSwap_demo swapSearch_demo swapFiltered_demo found pid
        POST_demoSwap ids)
qed

text \<open>
  C8. In a swap request that has passed its checks, the loop runs over the first 12
  candidates of \<^verbatim>\<open>filtered\<close> only, and \<^verbatim>\<open>filtered\<close> is sorted by descending score: a
  replacement, when there is one, is among those 12. When the loop accepts none of them,
  the response is the error "No OPEN replacement found nearby" with status 404, and no
  plan. It accepts none when each of the 12 is a candidate that it passes over in
  whatever state the provider is (its details cannot be fetched, or they say it is
  closed), whatever the later candidates are.
\<close>

theorem swap_no_open_replacement:
  assumes "trim (stringOr (b_action b) []) = ''swap''"
    and "readSwap e b = Inr sr"
    and "swapSearch P w sr = ((targetCategory, candidates), w1)"
  shows "(fst (findReplacement P w1 (take 12 (swapFiltered sr targetCategory candidates))) = None
          \<longrightarrow> fst (POST P e w b) = Error 404 ''No OPEN replacement found nearby'')
    \<and> ((\<forall>cand \<in> set (take 12 (swapFiltered sr targetCategory candidates)).
           \<forall>w'. rejects P w' cand)
          \<longrightarrow> fst (findReplacement P w1 (take 12 (swapFiltered sr targetCategory candidates))) = None)
    \<and> (\<forall>replacement.
          fst (findReplacement P w1 (take 12 (swapFiltered sr targetCategory candidates)))
            = Some replacement
          \<longrightarrow> replacement \<in> set (take 12 (swapFiltered sr targetCategory candidates)))
    \<and> sorted_wrt (\<lambda>p p'. scoreCandidate p' (b_riderMode b) \<le> scoreCandidate p (b_riderMode b))
         (swapFiltered sr targetCategory candidates)"
proof -
  define top where "top = take 12 (swapFiltered sr targetCategory candidates)"
  obtain found w2 where fr: "findReplacement P w1 top = (found, w2)"
    by (cases "findReplacement P w1 top")
  have none: "fst (POST P e w b) = Error 404 ''No OPEN replacement found nearby''"
    if "fst (findReplacement P w1 top) = None"
  proof -
    from that fr have "findReplacement P w1 top = (None, w2)"
      by simp
    then have "swapPOST P e w b = (Error 404 ''No OPEN replacement found nearby'', w2)"
      unfolding top_def by (rule swapPOST_no_replacement [OF assms(2) assms(3)])
    then show ?thesis
      using assms(1) by (simp add: POST_def)
  qed
  have passed: "fst (findReplacement P w1 top) = None"
    if "\<forall>cand \<in> set top. \<forall>w'. rejects P w' cand"
    using that by (intro findReplacement_all_rejected) blast
  have among: "replacement \<in> set top"
    if "fst (findReplacement P w1 top) = Some replacement" for replacement
  proof -
    from that fr have "findReplacement P w1 top = (Some replacement, w2)"
      by simp
    from findReplacement_Some [OF this] show ?thesis
      by simp
  qed
  have "q_riderMode (sw_request sr) = b_riderMode b"
    using readSwap_Inr(1) [OF assms(2)] by (simp add: readRequest_def Let_def)
  then have sorted: "sorted_wrt (\<lambda>p p'. scoreCandidate p' (b_riderMode b) \<le> scoreCandidate p (b_riderMode b))
      (swapFiltered sr targetCategory candidates)"
    using swapFiltered_sorted [of sr targetCategory candidates] by simp
  from none passed among sorted show ?thesis
    unfolding top_def by blast
qed

theorem swap_no_open_replacement_witness:
  "trim (stringOr (b_action demoSwap) []) = ''swap''
   \<and> readSwap demoEnv demoSwap = Inr demoSwapRequest
   \<and> swapSearch (demoProvider (Some False)) () demoSwapRequest
       = ((Attraction, [museum ''A'' (Some False), museum ''B'' (Some False)]), ())
   \<and> take 12 (swapFiltered demoSwapRequest Attraction
         [museum ''A'' (Some False), museum ''B'' (Some False)]) = [museum ''A'' (Some False)]
   \<and> rejects (demoProvider (Some False)) () (museum ''A'' (Some False))
   \<and> fst (findReplacement (demoProvider (Some False)) ()
         (take 12 (swapFiltered demoSwapRequest Attraction
           [museum ''A'' (Some False), museum ''B'' (Some False)]))) = None
   \<and> fst (POST (demoProvider (Some False)) demoEnv () demoSwap)
       = Error 404 ''No OPEN replacement found nearby''"
proof -
  have a: "trim (stringOr (b_action demoSwap) []) = ''swap''"
    by (simp add: demoSwap_def stringOr_def trim_demo)
  have closed: "rejects (demoProvider (Some False)) w' cand" for w' cand
    by (simp add: rejects_def demoProvider_fields museum_fields)
  have all: "\<forall>cand \<in> set (take 12 (swapFiltered demoSwapRequest Attraction
      [museum ''A'' (Some False), museum ''B'' (Some False)])). \<forall>w'.
      rejects (demoProvider (Some False)) w' cand"
    using closed by blast
  have top: "take 12 (swapFiltered demoSwapRequest Attraction
      [museum ''A'' (Some False), museum ''B'' (Some False)]) = [museum ''A'' (Some False)]"
    by (simp add: swapFiltered_demo)
  note inst = swap_no_open_replacement [OF a readSwap_demo swapSearch_demo]
  from inst all have none: "fst (findReplacement (demoProvider (Some False)) ()
      (take 12 (swapFiltered demoSwapRequest Attraction
        [museum ''A'' (Some False), museum ''B'' (Some False)]))) = None"
    by blast
  from inst none have "fst (POST (demoProvider (Some False)) demoEnv () demoSwap)
      = Error 404 ''No OPEN replacement found nearby''"
    by blast
  then show ?thesis
    by (intro conjI a readSwap_demo swapSearch_demo top closed none)
qed

section \<open>Properties of a fresh plan\<close>




lemma set_freshFiltered:
  "set (freshFiltered rm ex dc pooled)
     = {p \<in> set pooled. placeId p \<noteq> [] \<and> placeId p \<notin> ex \<and> location p \<noteq> None
          \<and> \<not> isNoisyType (types p) \<and> qualityGate dc p}"
  by (auto simp: freshFiltered_def sortByScore_def)

lemma POST_Plan_request:
  assumes "POST P e w b = (Plan r, w')"
  shows "\<exists>items. planResponse (readRequest b) items = Plan r"
proof (cases "trim (stringOr (b_action b) []) = ''swap''")
  case True
  with assms have "swapPOST P e w b = (Plan r, w')"
    by (simp add: POST_def)
  then obtain sr rep w2 where rd: "readSwap e b = Inr sr"
    and rb: "swapRebuild P w2 sr rep = (Plan r, w')"
    by (rule swapPOST_PlanE)
  from rb obtain stops w1 durs where "finishPlan P w1 (sw_request sr) stops durs = (Plan r, w')"
    by (auto simp: swapRebuild_def Let_def errorResponse_def split: prod.splits sum.splits)
  then show ?thesis
    using readSwap_Inr(1) [OF rd] by (elim finishPlan_PlanE) auto
next
  case False
  with assms have "freshPOST P e w b = (Plan r, w')"
    by (simp add: POST_def)
  then obtain q stops w1 where fs: "freshStops P e w b = (Inr (q, stops), w1)"
    and fin: "finishPlan P w1 q stops (freshDurations (q_totalMinutes q) (length stops)) = (Plan r, w')"
    by (auto simp: freshPOST_def errorResponse_def split: prod.splits sum.splits)
  from fs have "q = readRequest b"
    by (auto simp: freshStops_def Let_def split: if_splits prod.splits sum.splits)
  with fin show ?thesis
    by (elim finishPlan_PlanE) auto
qed

subsection \<open>How many stops a fresh plan reaches\<close>




















text \<open>
  C3, as the code has it. The gate tests \<^verbatim>\<open>rating > 0\<close> before each threshold. A merged
  candidate with at least 20 reviews and a rating above 0 and below 4.1 is not in
  \<^verbatim>\<open>filtered\<close>, nor is one with at least 5 reviews and a rating above 0 and below 3.9. A
  candidate whose rating is missing (and so 0) or not above 0 passes the rating gate
  whatever its review count.
\<close>

theorem freshFiltered_rating_gate:
  "(20 \<le> (case userRatingCount p of Some c \<Rightarrow> c | None \<Rightarrow> 0)
      \<and> 0 < (case rating p of Some r \<Rightarrow> r | None \<Rightarrow> 0)
      \<and> (case rating p of Some r \<Rightarrow> r | None \<Rightarrow> 0) < 4.1
      \<longrightarrow> p \<notin> set (freshFiltered riderMode excluded destCenter pooled))
   \<and> (5 \<le> (case userRatingCount p of Some c \<Rightarrow> c | None \<Rightarrow> 0)
      \<and> 0 < (case rating p of Some r \<Rightarrow> r | None \<Rightarrow> 0)
      \<and> (case rating p of Some r \<Rightarrow> r | None \<Rightarrow> 0) < 3.9
      \<longrightarrow> p \<notin> set (freshFiltered riderMode excluded destCenter pooled))
   \<and> ((case rating p of Some r \<Rightarrow> r | None \<Rightarrow> 0) \<le> 0 \<longrightarrow> qualityGate None p)"
  by (auto simp: set_freshFiltered qualityGate_def Let_def)

theorem freshFiltered_rating_gate_witness:
  "(20::real) \<le> 25 \<and> (0::real) < 4 \<and> (4::real) < 4.1
   \<and> (museum ''A'' None)\<lparr>rating := Some 4, userRatingCount := Some 25\<rparr>
       \<notin> set (freshFiltered False {} None
               [(museum ''A'' None)\<lparr>rating := Some 4, userRatingCount := Some 25\<rparr>])
   \<and> (5::real) \<le> 6 \<and> (0::real) < 3.5 \<and> (3.5::real) < 3.9
   \<and> (museum ''B'' None)\<lparr>rating := Some 3.5, userRatingCount := Some 6\<rparr>
       \<notin> set (freshFiltered False {} None
               [(museum ''B'' None)\<lparr>rating := Some 3.5, userRatingCount := Some 6\<rparr>])
   \<and> qualityGate None ((museum ''C'' None)\<lparr>rating := None, userRatingCount := Some 25\<rparr>)"
  using freshFiltered_rating_gate
      [where p = "(museum ''A'' None)\<lparr>rating := Some 4, userRatingCount := Some 25\<rparr>"
         and riderMode = False and excluded = "{}" and destCenter = None
         and pooled = "[(museum ''A'' None)\<lparr>rating := Some 4, userRatingCount := Some 25\<rparr>]"]
    freshFiltered_rating_gate
      [where p = "(museum ''B'' None)\<lparr>rating := Some 3.5, userRatingCount := Some 6\<rparr>"
         and riderMode = False and excluded = "{}" and destCenter = None
         and pooled = "[(museum ''B'' None)\<lparr>rating := Some 3.5, userRatingCount := Some 6\<rparr>]"]
    freshFiltered_rating_gate
      [where p = "(museum ''C'' None)\<lparr>rating := None, userRatingCount := Some 25\<rparr>"]
  by simp

text \<open>
  C3, as the claim states it, fails for a place without a rating: with 25 reviews and the
  rating missing (0 by default, which is below 4.1), the place stays in \<^verbatim>\<open>filtered\<close>.
\<close>

theorem freshFiltered_rating_gate_counterexample:
  "userRatingCount ((museum ''A'' None)\<lparr>rating := None, userRatingCount := Some 25\<rparr>) = Some 25
   \<and> rating ((museum ''A'' None)\<lparr>rating := None, userRatingCount := Some 25\<rparr>) = None
   \<and> freshFiltered False {} None [(museum ''A'' None)\<lparr>rating := None, userRatingCount := Some 25\<rparr>]
       = [(museum ''A'' None)\<lparr>rating := None, userRatingCount := Some 25\<rparr>]"
  by (simp add: freshFiltered_def sortByScore_single qualityGate_def museum_def isNoisyType_def bad_def)






section \<open>What every plan echoes\<close>

text \<open>
  C10. \<^verbatim>\<open>clamp\<close> returns \<open>min\<close> for the three numbers that are not finite, and for a
  finite number a value between \<open>min\<close> and \<open>max\<close> whenever \<open>min\<close> is at most \<open>max\<close>. Every
  plan that \<^verbatim>\<open>POST\<close> returns, fresh or swapped, echoes the clamped values: its total
  minutes are within 120..420 and its buffer minutes within 0..20, whatever the body
  held in those fields.
\<close>

theorem clamp_and_echo:
  "(\<not> isFinite n \<longrightarrow> clamp n mn mx = mn)
   \<and> (isFinite n \<and> mn \<le> mx \<longrightarrow> mn \<le> clamp n mn mx \<and> clamp n mn mx \<le> mx)
   \<and> (POST P e w b = (Plan r, w') \<longrightarrow>
        r_totalMinutes r = clamp (numberOr (b_totalMinutes b) 150) 120 420
        \<and> 120 \<le> r_totalMinutes r \<and> r_totalMinutes r \<le> 420
        \<and> r_bufferMinutes r = clamp (numberOr (b_bufferMinutes b) 0) 0 20
        \<and> 0 \<le> r_bufferMinutes r \<and> r_bufferMinutes r \<le> 20)"
proof (intro conjI impI)
  assume "\<not> isFinite n"
  then show "clamp n mn mx = mn"
    by (cases n) simp_all
next
  assume "isFinite n \<and> mn \<le> mx"
  then show "mn \<le> clamp n mn mx" "clamp n mn mx \<le> mx"
    using clamp_bounds [of mn mx n] by simp_all
next
  assume plan: "POST P e w b = (Plan r, w')"
  obtain items where "planResponse (readRequest b) items = Plan r"
    using POST_Plan_request [OF plan] by auto
  then have t: "r_totalMinutes r = clamp (numberOr (b_totalMinutes b) 150) 120 420"
    and bf: "r_bufferMinutes r = clamp (numberOr (b_bufferMinutes b) 0) 0 20"
    by (auto simp: planResponse_def readRequest_def Let_def)
  show "r_totalMinutes r = clamp (numberOr (b_totalMinutes b) 150) 120 420"
    by (rule t)
  show "120 \<le> r_totalMinutes r" "r_totalMinutes r \<le> 420"
    using clamp_bounds [of 120 420 "numberOr (b_totalMinutes b) 150"] by (simp_all add: t)
  show "r_bufferMinutes r = clamp (numberOr (b_bufferMinutes b) 0) 0 20"
    by (rule bf)
  show "0 \<le> r_bufferMinutes r" "r_bufferMinutes r \<le> 20"
    using clamp_bounds [of 0 20 "numberOr (b_bufferMinutes b) 0"] by (simp_all add: bf)
qed

theorem clamp_and_echo_witness:
  "\<not> isFinite NaN \<and> clamp NaN 120 420 = 120
   \<and> isFinite (Num 500) \<and> (120::real) \<le> 420
   \<and> 120 \<le> clamp (Num 500) 120 420 \<and> clamp (Num 500) 120 420 \<le> 420
   \<and> b_totalMinutes demoSwap = Some NaN \<and> b_bufferMinutes demoSwap = Some (Num 99)
   \<and> POST (demoProvider None) demoEnv () demoSwap = (Plan (demoPlan False 180 180), ())
   \<and> r_totalMinutes (demoPlan False 180 180) = clamp (numberOr (b_totalMinutes demoSwap) 150) 120 420
   \<and> 120 \<le> r_totalMinutes (demoPlan False 180 180)
   \<and> r_totalMinutes (demoPlan False 180 180) \<le> 420
   \<and> r_bufferMinutes (demoPlan False 180 180) = clamp (numberOr (b_bufferMinutes demoSwap) 0) 0 20
   \<and> 0 \<le> r_bufferMinutes (demoPlan False 180 180)
   \<and> r_bufferMinutes (demoPlan False 180 180) \<le> 20"
proof -
  note nan = clamp_and_echo [where n = NaN and mn = 120 and mx = 420 and P = "demoProvider None"
      and e = demoEnv and w = "()" and b = demoSwap and r = "demoPlan False 180 180" and w' = "()"]
  note fin = clamp_and_echo [where n = "Num 500" and mn = 120 and mx = 420 and P = "demoProvider None"
      and e = demoEnv and w = "()" and b = demoSwap and r = "demoPlan False 180 180" and w' = "()"]
  have body: "b_totalMinutes demoSwap = Some NaN" "b_bufferMinutes demoSwap = Some (Num 99)"
    by (simp_all add: demoSwap_def)
  from nan have c1: "clamp NaN 120 420 = 120"
    by simp
  from fin have c2: "120 \<le> clamp (Num 500) 120 420 \<and> clamp (Num 500) 120 420 \<le> 420"
    by simp
  from nan POST_demoSwap have echo:
    "r_totalMinutes (demoPlan False 180 180) = clamp (numberOr (b_totalMinutes demoSwap) 150) 120 420
     \<and> 120 \<le> r_totalMinutes (demoPlan False 180 180)
     \<and> r_totalMinutes (demoPlan False 180 180) \<le> 420
     \<and> r_bufferMinutes (demoPlan False 180 180) = clamp (numberOr (b_bufferMinutes demoSwap) 0) 0 20
     \<and> 0 \<le> r_bufferMinutes (demoPlan False 180 180)
     \<and> r_bufferMinutes (demoPlan False 180 180) \<le> 20"
    by blast
  show ?thesis
    using c1 c2 echo body POST_demoSwap by simp
qed

end
